theory Spec2Isabelle
  imports Complex_Main "HOL-Library.Monad_Syntax"
begin

section \<open>The U-Net builder of \<^verbatim>\<open>architectures/g_unet.py\<close>\<close>

text \<open>
  The module builds a Keras graph: every statement of \<^verbatim>\<open>g_unet\<close> constructs a layer and
  calls it on a symbolic tensor. The embedding keeps exactly that: a layer is a value of
  the datatype \<open>layer\<close> holding the constructor arguments the source passes, a symbolic
  tensor is the layer that produced it together with the tensors it was called on, and
  the effects of the module (text printed, layers constructed, the backend's global image
  dimension ordering) live in a record \<open>world\<close> that every effectful function takes and
  returns. Python integers are \<open>int\<close>; the float literals \<^verbatim>\<open>0.2\<close> and \<^verbatim>\<open>0.5\<close> are layer
  parameters only and are kept as the rationals \<open>1/5\<close> and \<open>1/2\<close>.
\<close>

subsection \<open>Data model\<close>

datatype error = ValueError string | AssertionError string | IndexError

text \<open>
  The Keras layers the module constructs. The arguments are those of the call in the
  source, in the order given below.
  \<^item> \<open>InputLayer shape\<close>: \<^verbatim>\<open>Input(shape=...)\<close>;
  \<^item> \<open>Convolution2D f (k, k') border (s, s')\<close>: \<^verbatim>\<open>Convolution2D\<close>, with filters, kernel size,
    border mode (Keras 2: padding) and subsample (Keras 2: strides);
  \<^item> \<open>Conv2DTranspose f (k, k') (s, s') data_format\<close>: the Keras 2 transposed convolution;
  \<^item> \<open>Deconvolution2D f k k' output_shape (s, s')\<close>: the Keras 1 transposed convolution;
  \<^item> \<open>BatchNormalization mode axis\<close>: \<open>mode\<close> is \<open>None\<close> when the call passes no mode (Keras 2);
  \<^item> \<open>LeakyReLU alpha\<close>, \<open>Dropout rate\<close>, \<open>Activation name\<close>;
  \<^item> \<open>Concatenate axis\<close> (Keras 2) and \<open>Merge concat_axis mode\<close> (Keras 1 \<^verbatim>\<open>merge\<close>).
\<close>

datatype layer =
    InputLayer "int list"
  | Convolution2D int "int \<times> int" string "int \<times> int"
  | Conv2DTranspose int "int \<times> int" "int \<times> int" string
  | Deconvolution2D int int int "int list" "int \<times> int"
  | BatchNormalization "int option" int
  | LeakyReLU rat
  | Dropout rat
  | Concatenate int
  | Merge int string
  | Activation string

text \<open>A symbolic tensor: the layer that produced it and the tensors that layer was called on.\<close>

datatype tensor = Tensor layer "tensor list"

text \<open>\<^verbatim>\<open>Model(i, out, name=name)\<close>.\<close>

record model =
  inputs :: tensor
  outputs :: tensor
  name :: string

text \<open>
  The state the module reads and writes: the backend's global image dimension ordering
  (\<^verbatim>\<open>K.image_dim_ordering()\<close>), the lines printed so far, and the layers constructed so far,
  in construction order.
\<close>

record world =
  image_dim_ordering :: string
  stdout :: "string list"
  built :: "layer list"

record merge_params =
  mode :: string
  concat_axis :: int

subsection \<open>Module initialisation\<close>

definition print :: "string \<Rightarrow> world \<Rightarrow> world" where
  "print s w = w\<lparr>stdout := stdout w @ [s]\<rparr>"


text \<open>
  \<^verbatim>\<open>K.image_data_format()\<close> of Keras 2, which keeps the ordering as a data format:
  \<^verbatim>\<open>'th'\<close> is \<^verbatim>\<open>'channels_first'\<close> and \<^verbatim>\<open>'tf'\<close> is \<^verbatim>\<open>'channels_last'\<close>.
\<close>

definition image_data_format :: "world \<Rightarrow> string" where
  "image_data_format w =
     (if image_dim_ordering w = ''th'' then ''channels_first'' else ''channels_last'')"


subsection \<open>The layer wrappers\<close>

text \<open>
  A layer object is constructed and at once called on its inputs
  (\<^verbatim>\<open>Convolution(nf)(i)\<close>): \<open>apply_layer\<close> records the construction and returns the
  symbolic tensor of the call.
\<close>

definition apply_layer :: "layer \<Rightarrow> tensor list \<Rightarrow> world \<Rightarrow> tensor \<times> world" where
  "apply_layer l xs w = (Tensor l xs, w\<lparr>built := built w @ [l]\<rparr>)"

definition Input :: "int list \<Rightarrow> world \<Rightarrow> tensor \<times> world" where
  "Input shape w = apply_layer (InputLayer shape) [] w"

definition concatenate_layers ::
  "bool \<Rightarrow> tensor list \<Rightarrow> int \<Rightarrow> string \<Rightarrow> world \<Rightarrow> (error + tensor) \<times> world" where
  "concatenate_layers KERAS_2 inps concat_axis mode w =
     (if KERAS_2 then
        (if mode \<noteq> ''concat''
         then (Inl (AssertionError ''Only concatenation is supported in this wrapper''), w)
         else (case apply_layer (Concatenate concat_axis) inps w of (x, w) \<Rightarrow> (Inr x, w)))
      else (case apply_layer (Merge concat_axis mode) inps w of (x, w) \<Rightarrow> (Inr x, w)))"
  for concat_axis mode

text \<open>The defaults of the source are \<^verbatim>\<open>k=3, s=2, border_mode='same'\<close>; calls give them in full.\<close>

definition Convolution :: "bool \<Rightarrow> int \<Rightarrow> int \<Rightarrow> int \<Rightarrow> string \<Rightarrow> layer" where
  "Convolution KERAS_2 f k s border_mode =
     (if KERAS_2 then Convolution2D f (k, k) border_mode (s, s)
      else Convolution2D f (k, k) border_mode (s, s))"

text \<open>The defaults of the source are \<^verbatim>\<open>k=2, s=2\<close>.\<close>

definition Deconvolution :: "bool \<Rightarrow> world \<Rightarrow> int \<Rightarrow> int list \<Rightarrow> int \<Rightarrow> int \<Rightarrow> layer" where
  "Deconvolution KERAS_2 w f output_shape k s =
     (if KERAS_2 then Conv2DTranspose f (k, k) (s, s) (image_data_format w)
      else Deconvolution2D f k k output_shape (s, s))"

text \<open>The defaults of the source are \<^verbatim>\<open>mode=2, axis=1\<close>; the Keras 1 branch passes the literal 2.\<close>

definition BatchNorm :: "bool \<Rightarrow> int \<Rightarrow> int \<Rightarrow> layer" where
  "BatchNorm KERAS_2 mode axis =
     (if KERAS_2 then BatchNormalization None axis
      else BatchNormalization (Some 2) axis)"
  for mode

subsection \<open>\<^verbatim>\<open>g_unet\<close>\<close>

text \<open>
  An exception raised by a call ends the function: \<open>on_success r f\<close> goes on with \<open>f\<close> on
  the value and the world of \<open>r\<close> when \<open>r\<close> returned, and is the exception of \<open>r\<close> otherwise.
\<close>

definition on_success ::
  "(error + 'a) \<times> world \<Rightarrow> ('a \<Rightarrow> world \<Rightarrow> (error + 'b) \<times> world) \<Rightarrow>
   (error + 'b) \<times> world" where
  "on_success r f = (case r of (Inl e, w) \<Rightarrow> (Inl e, w) | (Inr x, w) \<Rightarrow> f x w)"

text \<open>The two local functions \<^verbatim>\<open>get_deconv_shape\<close>, of the \<^verbatim>\<open>'th'\<close> and of the \<^verbatim>\<open>'tf'\<close> branch.\<close>

definition get_deconv_shape_th :: "int \<Rightarrow> int \<Rightarrow> int \<Rightarrow> int \<Rightarrow> int list" where
  "get_deconv_shape_th samples channels x_dim y_dim = [samples, channels, x_dim, y_dim]"

definition get_deconv_shape_tf :: "int \<Rightarrow> int \<Rightarrow> int \<Rightarrow> int \<Rightarrow> int list" where
  "get_deconv_shape_tf samples channels x_dim y_dim = [samples, x_dim, y_dim, channels]"

text \<open>
  The local function \<^verbatim>\<open>padded_conv\<close>; \<^verbatim>\<open>for z in range(num_padded_conv)\<close> runs
  \<open>nat num_padded_conv\<close> times (not at all for a negative count).
\<close>

primrec padded_conv_loop :: "bool \<Rightarrow> nat \<Rightarrow> int \<Rightarrow> tensor \<Rightarrow> world \<Rightarrow> tensor \<times> world" where
  "padded_conv_loop KERAS_2 0 nf x w = (x, w)"
| "padded_conv_loop KERAS_2 (Suc z) nf x w =
     (let (x, w) = apply_layer (Convolution KERAS_2 nf 3 1 ''same'') [x] w;
          (x, w) = apply_layer (BatchNorm KERAS_2 2 1) [x] w;
          (x, w) = apply_layer (LeakyReLU (1/5)) [x] w
      in padded_conv_loop KERAS_2 z nf x w)"

definition padded_conv :: "bool \<Rightarrow> int \<Rightarrow> int \<Rightarrow> tensor \<Rightarrow> world \<Rightarrow> tensor \<times> world" where
  "padded_conv KERAS_2 num_padded_conv nf x w =
     padded_conv_loop KERAS_2 (nat num_padded_conv) nf x w"

text \<open>
  The local variables of \<^verbatim>\<open>g_unet\<close> at its \<^verbatim>\<open>return\<close>, each field \<open>v_name\<close> holding the
  value of the variable \<^verbatim>\<open>name\<close>. The variable \<^verbatim>\<open>x\<close> is assigned many
  times; the values the properties below speak of are kept under the line of the
  assignment: \<open>x_174\<close> is the output of the last encoder stage, \<open>x_183\<close>, \<open>x_192\<close>, ... are
  the results of the eight calls of \<^verbatim>\<open>concatenate_layers\<close>, and \<open>x_186\<close>, \<open>x_195\<close>, ... are the
  results of the calls of \<^verbatim>\<open>padded_conv\<close> that end the decoder stages.
\<close>

record locals =
  v_i :: tensor
  v_conv1 :: tensor
  v_conv2 :: tensor
  v_conv3 :: tensor
  v_conv4 :: tensor
  v_conv5 :: tensor
  v_conv6 :: tensor
  v_conv7 :: tensor
  v_conv8 :: tensor
  v_conv9 :: tensor
  v_x_174 :: tensor
  v_dconv1 :: tensor
  v_x_183 :: tensor
  v_x_186 :: tensor
  v_dconv2 :: tensor
  v_x_192 :: tensor
  v_x_195 :: tensor
  v_dconv3 :: tensor
  v_x_201 :: tensor
  v_x_204 :: tensor
  v_dconv4 :: tensor
  v_x_209 :: tensor
  v_x_212 :: tensor
  v_dconv5 :: tensor
  v_x_217 :: tensor
  v_x_220 :: tensor
  v_dconv6 :: tensor
  v_x_225 :: tensor
  v_x_228 :: tensor
  v_dconv7 :: tensor
  v_x_233 :: tensor
  v_x_236 :: tensor
  v_dconv8 :: tensor
  v_x_241 :: tensor
  v_x_244 :: tensor
  v_dconv9 :: tensor
  v_act :: string
  v_out :: tensor

definition g_unet_body ::
  "bool \<Rightarrow> int \<Rightarrow> int \<Rightarrow> int \<Rightarrow> bool \<Rightarrow> int \<Rightarrow> tensor \<Rightarrow>
   (int \<Rightarrow> int \<Rightarrow> int \<Rightarrow> int \<Rightarrow> int list) \<Rightarrow> merge_params \<Rightarrow> world \<Rightarrow>
   (error + locals) \<times> world" where
  "g_unet_body KERAS_2 out_ch nf batch_size is_binary num_padded_conv i get_deconv_shape
     merge_params w =
    (let (conv1, w) = apply_layer (Convolution KERAS_2 nf 3 2 ''same'') [i] w;
         (conv1, w) = apply_layer (BatchNorm KERAS_2 2 1) [conv1] w;
         (conv1, w) = apply_layer (LeakyReLU (1/5)) [conv1] w;
         (conv1, w) = padded_conv KERAS_2 num_padded_conv nf conv1 w;
         x = conv1;
         (conv2, w) = apply_layer (Convolution KERAS_2 (nf * 2) 3 2 ''same'') [x] w;
         (conv2, w) = apply_layer (BatchNorm KERAS_2 2 1) [conv2] w;
         (conv2, w) = apply_layer (LeakyReLU (1/5)) [conv2] w;
         (conv2, w) = padded_conv KERAS_2 num_padded_conv (nf * 2) conv2 w;
         x = conv2;
         (conv3, w) = apply_layer (Convolution KERAS_2 (nf * 4) 3 2 ''same'') [x] w;
         (conv3, w) = apply_layer (BatchNorm KERAS_2 2 1) [conv3] w;
         (conv3, w) = apply_layer (LeakyReLU (1/5)) [conv3] w;
         (conv3, w) = padded_conv KERAS_2 num_padded_conv (nf * 4) conv3 w;
         x = conv3;
         (conv4, w) = apply_layer (Convolution KERAS_2 (nf * 8) 3 2 ''same'') [x] w;
         (conv4, w) = apply_layer (BatchNorm KERAS_2 2 1) [conv4] w;
         (conv4, w) = apply_layer (LeakyReLU (1/5)) [conv4] w;
         (conv4, w) = padded_conv KERAS_2 num_padded_conv (nf * 8) conv4 w;
         x = conv4;
         (conv5, w) = apply_layer (Convolution KERAS_2 (nf * 8) 3 2 ''same'') [x] w;
         (conv5, w) = apply_layer (BatchNorm KERAS_2 2 1) [conv5] w;
         (conv5, w) = apply_layer (LeakyReLU (1/5)) [conv5] w;
         (conv5, w) = padded_conv KERAS_2 num_padded_conv (nf * 8) conv5 w;
         x = conv5;
         (conv6, w) = apply_layer (Convolution KERAS_2 (nf * 8) 3 2 ''same'') [x] w;
         (conv6, w) = apply_layer (BatchNorm KERAS_2 2 1) [conv6] w;
         (conv6, w) = apply_layer (LeakyReLU (1/5)) [conv6] w;
         (conv6, w) = padded_conv KERAS_2 num_padded_conv (nf * 8) conv6 w;
         x = conv6;
         (conv7, w) = apply_layer (Convolution KERAS_2 (nf * 8) 3 2 ''same'') [x] w;
         (conv7, w) = apply_layer (BatchNorm KERAS_2 2 1) [conv7] w;
         (conv7, w) = apply_layer (LeakyReLU (1/5)) [conv7] w;
         (conv7, w) = padded_conv KERAS_2 num_padded_conv (nf * 8) conv7 w;
         x = conv7;
         (conv8, w) = apply_layer (Convolution KERAS_2 (nf * 8) 3 2 ''same'') [x] w;
         (conv8, w) = apply_layer (BatchNorm KERAS_2 2 1) [conv8] w;
         (conv8, w) = apply_layer (LeakyReLU (1/5)) [conv8] w;
         (conv8, w) = padded_conv KERAS_2 num_padded_conv (nf * 8) conv8 w;
         x = conv8;
         (conv9, w) = apply_layer (Convolution KERAS_2 (nf * 8) 2 1 ''valid'') [x] w;
         (conv9, w) = apply_layer (BatchNorm KERAS_2 2 1) [conv9] w;
         (x_174, w) = apply_layer (LeakyReLU (1/5)) [conv9] w;
         (dconv1, w) = apply_layer (Deconvolution KERAS_2 w (nf * 8)
                                 (get_deconv_shape batch_size (nf * 8) 2 2) 2 1) [x_174] w;
         (dconv1, w) = apply_layer (BatchNorm KERAS_2 2 1) [dconv1] w;
         (dconv1, w) = apply_layer (Dropout (1/2)) [dconv1] w
     in on_success (concatenate_layers KERAS_2 [dconv1, conv8]
                      (concat_axis merge_params) (mode merge_params) w) (\<lambda>x_183 w.
     let (x, w) = apply_layer (LeakyReLU (1/5)) [x_183] w;
         (x_186, w) = padded_conv KERAS_2 num_padded_conv (nf * 8) x w;
         (dconv2, w) = apply_layer (Deconvolution KERAS_2 w (nf * 8)
                                 (get_deconv_shape batch_size (nf * 8) 4 4) 2 2) [x_186] w;
         (dconv2, w) = apply_layer (BatchNorm KERAS_2 2 1) [dconv2] w;
         (dconv2, w) = apply_layer (Dropout (1/2)) [dconv2] w
     in on_success (concatenate_layers KERAS_2 [dconv2, conv7]
                      (concat_axis merge_params) (mode merge_params) w) (\<lambda>x_192 w.
     let (x, w) = apply_layer (LeakyReLU (1/5)) [x_192] w;
         (x_195, w) = padded_conv KERAS_2 num_padded_conv (nf * 8) x w;
         (dconv3, w) = apply_layer (Deconvolution KERAS_2 w (nf * 8)
                                 (get_deconv_shape batch_size (nf * 8) 8 8) 2 2) [x_195] w;
         (dconv3, w) = apply_layer (BatchNorm KERAS_2 2 1) [dconv3] w;
         (dconv3, w) = apply_layer (Dropout (1/2)) [dconv3] w
     in on_success (concatenate_layers KERAS_2 [dconv3, conv6]
                      (concat_axis merge_params) (mode merge_params) w) (\<lambda>x_201 w.
     let (x, w) = apply_layer (LeakyReLU (1/5)) [x_201] w;
         (x_204, w) = padded_conv KERAS_2 num_padded_conv (nf * 8) x w;
         (dconv4, w) = apply_layer (Deconvolution KERAS_2 w (nf * 8)
                                 (get_deconv_shape batch_size (nf * 8) 16 16) 2 2) [x_204] w;
         (dconv4, w) = apply_layer (BatchNorm KERAS_2 2 1) [dconv4] w
     in on_success (concatenate_layers KERAS_2 [dconv4, conv5]
                      (concat_axis merge_params) (mode merge_params) w) (\<lambda>x_209 w.
     let (x, w) = apply_layer (LeakyReLU (1/5)) [x_209] w;
         (x_212, w) = padded_conv KERAS_2 num_padded_conv (nf * 8) x w;
         (dconv5, w) = apply_layer (Deconvolution KERAS_2 w (nf * 8)
                                 (get_deconv_shape batch_size (nf * 8) 32 32) 2 2) [x_212] w;
         (dconv5, w) = apply_layer (BatchNorm KERAS_2 2 1) [dconv5] w
     in on_success (concatenate_layers KERAS_2 [dconv5, conv4]
                      (concat_axis merge_params) (mode merge_params) w) (\<lambda>x_217 w.
     let (x, w) = apply_layer (LeakyReLU (1/5)) [x_217] w;
         (x_220, w) = padded_conv KERAS_2 num_padded_conv (nf * 8) x w;
         (dconv6, w) = apply_layer (Deconvolution KERAS_2 w (nf * 4)
                                 (get_deconv_shape batch_size (nf * 4) 64 64) 2 2) [x_220] w;
         (dconv6, w) = apply_layer (BatchNorm KERAS_2 2 1) [dconv6] w
     in on_success (concatenate_layers KERAS_2 [dconv6, conv3]
                      (concat_axis merge_params) (mode merge_params) w) (\<lambda>x_225 w.
     let (x, w) = apply_layer (LeakyReLU (1/5)) [x_225] w;
         (x_228, w) = padded_conv KERAS_2 num_padded_conv (nf * 4) x w;
         (dconv7, w) = apply_layer (Deconvolution KERAS_2 w (nf * 2)
                                 (get_deconv_shape batch_size (nf * 2) 128 128) 2 2) [x_228] w;
         (dconv7, w) = apply_layer (BatchNorm KERAS_2 2 1) [dconv7] w
     in on_success (concatenate_layers KERAS_2 [dconv7, conv2]
                      (concat_axis merge_params) (mode merge_params) w) (\<lambda>x_233 w.
     let (x, w) = apply_layer (LeakyReLU (1/5)) [x_233] w;
         (x_236, w) = padded_conv KERAS_2 num_padded_conv (nf * 2) x w;
         (dconv8, w) = apply_layer (Deconvolution KERAS_2 w nf
                                 (get_deconv_shape batch_size nf 256 256) 2 2) [x_236] w;
         (dconv8, w) = apply_layer (BatchNorm KERAS_2 2 1) [dconv8] w
     in on_success (concatenate_layers KERAS_2 [dconv8, conv1]
                      (concat_axis merge_params) (mode merge_params) w) (\<lambda>x_241 w.
     let (x, w) = apply_layer (LeakyReLU (1/5)) [x_241] w;
         (x_244, w) = padded_conv KERAS_2 num_padded_conv nf x w;
         (dconv9, w) = apply_layer (Deconvolution KERAS_2 w out_ch
                                 (get_deconv_shape batch_size out_ch 512 512) 2 2) [x_244] w;
         act = (if is_binary then ''sigmoid'' else ''tanh'');
         (out, w) = apply_layer (Activation act) [dconv9] w
     in (Inr \<lparr>v_i = i, v_conv1 = conv1, v_conv2 = conv2, v_conv3 = conv3, v_conv4 = conv4,
              v_conv5 = conv5, v_conv6 = conv6, v_conv7 = conv7, v_conv8 = conv8,
              v_conv9 = conv9,
              v_x_174 = x_174, v_dconv1 = dconv1, v_x_183 = x_183, v_x_186 = x_186,
              v_dconv2 = dconv2, v_x_192 = x_192, v_x_195 = x_195, v_dconv3 = dconv3,
              v_x_201 = x_201, v_x_204 = x_204, v_dconv4 = dconv4, v_x_209 = x_209,
              v_x_212 = x_212, v_dconv5 = dconv5, v_x_217 = x_217, v_x_220 = x_220,
              v_dconv6 = dconv6, v_x_225 = x_225, v_x_228 = x_228, v_dconv7 = dconv7,
              v_x_233 = x_233, v_x_236 = x_236, v_dconv8 = dconv8, v_x_241 = x_241,
              v_x_244 = x_244, v_dconv9 = dconv9, v_act = act, v_out = out\<rparr>, w))))))))))"

text \<open>
  Lines 84 to 252: the dispatch on the image dimension ordering, then the body. The
  unsupported ordering raises before \<^verbatim>\<open>Input\<close> or any layer is constructed.
\<close>

definition g_unet_locals ::
  "bool \<Rightarrow> int \<Rightarrow> int \<Rightarrow> int \<Rightarrow> int \<Rightarrow> bool \<Rightarrow> int \<Rightarrow> string \<Rightarrow> world \<Rightarrow>
   (error + locals) \<times> world" where
  "g_unet_locals KERAS_2 in_ch out_ch nf batch_size is_binary num_padded_conv name w =
    (let merge_params = \<lparr>mode = ''concat'', concat_axis = 1\<rparr> in
     if image_dim_ordering w = ''th'' then
       let w = print ''TheanoShapedU-NET'' w;
           (i, w) = Input [in_ch, 512, 512] w
       in g_unet_body KERAS_2 out_ch nf batch_size is_binary num_padded_conv i
            get_deconv_shape_th merge_params w
     else if image_dim_ordering w = ''tf'' then
       let (i, w) = Input [512, 512, in_ch] w;
           w = print ''TensorflowShapedU-NET'' w;
           merge_params = merge_params\<lparr>concat_axis := 3\<rparr>
       in g_unet_body KERAS_2 out_ch nf batch_size is_binary num_padded_conv i
            get_deconv_shape_tf merge_params w
     else
       (Inl (ValueError (''Keras dimension ordering not supported: '' @ image_dim_ordering w)),
        w))"
  for name

text \<open>Lines 254 to 256: \<^verbatim>\<open>unet = Model(i, out, name=name)\<close> and \<^verbatim>\<open>return unet\<close>.\<close>

definition g_unet ::
  "bool \<Rightarrow> int \<Rightarrow> int \<Rightarrow> int \<Rightarrow> int \<Rightarrow> bool \<Rightarrow> int \<Rightarrow> string \<Rightarrow> world \<Rightarrow>
   (error + model) \<times> world" where
  "g_unet KERAS_2 in_ch out_ch nf batch_size is_binary num_padded_conv name w =
    (case g_unet_locals KERAS_2 in_ch out_ch nf batch_size is_binary num_padded_conv name w of
       (Inl e, w) \<Rightarrow> (Inl e, w)
     | (Inr l, w) \<Rightarrow> (Inr \<lparr>inputs = v_i l, outputs = v_out l, name = name\<rparr>, w))"
  for name

subsection \<open>Shapes\<close>

text \<open>
  The properties of the graph are about tensor shapes, which the framework computes and
  the module only relies on. The functions below are the framework's shape rules, written
  out: \<open>conv_output_length\<close> and \<open>deconv_length\<close> are the functions of these names in
  \<^verbatim>\<open>keras/utils/conv_utils.py\<close> (Python's \<^verbatim>\<open>//\<close> is \<open>div\<close> on \<open>int\<close>, both round down), and
  \<open>layer_output_shape\<close> is the output shape each layer computes from the shapes of its
  inputs. A shape is the list of the tensor's dimensions, the batch dimension first;
  \<open>None\<close> is a call the framework rejects.
\<close>

definition conv_output_length :: "int \<Rightarrow> int \<Rightarrow> string \<Rightarrow> int \<Rightarrow> int option" where
  "conv_output_length input_length filter_size border_mode stride =
     (if stride \<le> 0 then None
      else if border_mode = ''same'' then Some ((input_length + stride - 1) div stride)
      else if border_mode = ''valid''
        then Some ((input_length - filter_size + 1 + stride - 1) div stride)
      else if border_mode = ''full''
        then Some ((input_length + filter_size - 1 + stride - 1) div stride)
      else None)"

definition deconv_length :: "int \<Rightarrow> int \<Rightarrow> int \<Rightarrow> string \<Rightarrow> int option" where
  "deconv_length dim_size stride_size kernel_size padding =
     (if padding = ''valid''
        then Some (dim_size * stride_size + max (kernel_size - stride_size) 0)
      else if padding = ''full''
        then Some (dim_size * stride_size - (stride_size + kernel_size - 2))
      else if padding = ''same'' then Some (dim_size * stride_size)
      else None)"

text \<open>
  The two layouts of an image batch: samples, channels, rows, columns under \<^verbatim>\<open>'th'\<close>
  (\<^verbatim>\<open>'channels_first'\<close>) and samples, rows, columns, channels under \<^verbatim>\<open>'tf'\<close>
  (\<^verbatim>\<open>'channels_last'\<close>).
\<close>

definition channels_first :: "string \<Rightarrow> bool option" where
  "channels_first fmt =
     (if fmt = ''th'' \<or> fmt = ''channels_first'' then Some True
      else if fmt = ''tf'' \<or> fmt = ''channels_last'' then Some False
      else None)"

fun split_shape :: "bool \<Rightarrow> int list \<Rightarrow> (int \<times> int \<times> int \<times> int) option" where
  "split_shape True [n, c, h, v] = Some (n, c, h, v)"
| "split_shape False [n, h, v, c] = Some (n, c, h, v)"
| "split_shape _ _ = None"

fun join_shape :: "bool \<Rightarrow> int \<times> int \<times> int \<times> int \<Rightarrow> int list" where
  "join_shape True (n, c, h, v) = [n, c, h, v]"
| "join_shape False (n, c, h, v) = [n, h, v, c]"

definition positive_dims :: "int list \<Rightarrow> int list option" where
  "positive_dims s = (if list_all (\<lambda>d. 0 < d) s then Some s else None)"

text \<open>
  Concatenation along \<open>axis\<close> (a negative axis counts from the end): at least two inputs,
  all of one rank and equal outside the axis; the result adds up the axis.
\<close>

definition concat_shape :: "int \<Rightarrow> int list list \<Rightarrow> int list option" where
  "concat_shape axis shapes =
     (case shapes of
        s # t # rest \<Rightarrow>
          let r = int (length s);
              a = (if axis < 0 then axis + r else axis)
          in if 0 \<le> a \<and> a < r \<and>
                list_all (\<lambda>u. length u = length s \<and> u[nat a := 0] = s[nat a := 0]) (t # rest)
             then Some (s[nat a := sum_list (map (\<lambda>u. u ! nat a) shapes)])
             else None
      | _ \<Rightarrow> None)"

text \<open>
  The output shape of a layer called on inputs of the given shapes, under the image
  dimension ordering \<open>ord\<close> and with \<open>b\<close> samples in the batch.
  \<^item> A convolution needs positive input channels, filters and output size.
  \<^item> The Keras 2 transposed convolution computes its size with \<open>deconv_length\<close> (its
    padding is the default \<^verbatim>\<open>'valid'\<close>) and lays the result out by its \<open>data_format\<close>.
  \<^item> The Keras 1 transposed convolution takes rows and columns from its \<open>output_shape\<close>
    argument; the backend accepts the call when that argument names the batch size and
    filter count in use and a size whose \<^verbatim>\<open>'valid'\<close> convolution gives back the input size.
  \<^item> Normalisation, activations and dropout keep the shape.
  \<^item> Keras 1 \<^verbatim>\<open>merge\<close> is modelled in mode \<^verbatim>\<open>'concat'\<close> only.
\<close>

fun layer_output_shape :: "string \<Rightarrow> int \<Rightarrow> layer \<Rightarrow> int list list \<Rightarrow> int list option" where
  "layer_output_shape ord b (InputLayer shape) ss =
     (if ss = [] then positive_dims (b # shape) else None)"
| "layer_output_shape ord b (Convolution2D f (kr, kc) border_mode (sr, sc)) ss =
     (case ss of
        [s] \<Rightarrow> do {
          cf \<leftarrow> channels_first ord;
          (n, c, h, v) \<leftarrow> split_shape cf s;
          oh \<leftarrow> conv_output_length h kr border_mode sr;
          ov \<leftarrow> conv_output_length v kc border_mode sc;
          if 0 < c then positive_dims (join_shape cf (n, f, oh, ov)) else None }
      | _ \<Rightarrow> None)"
| "layer_output_shape ord b (Conv2DTranspose f (kr, kc) (sr, sc) data_format) ss =
     (case ss of
        [s] \<Rightarrow> do {
          cf \<leftarrow> channels_first data_format;
          (n, c, h, v) \<leftarrow> split_shape cf s;
          oh \<leftarrow> deconv_length h sr kr ''valid'';
          ov \<leftarrow> deconv_length v sc kc ''valid'';
          if 0 < c then positive_dims (join_shape cf (n, f, oh, ov)) else None }
      | _ \<Rightarrow> None)"
| "layer_output_shape ord b (Deconvolution2D f kr kc output_shape (sr, sc)) ss =
     (case ss of
        [s] \<Rightarrow> do {
          cf \<leftarrow> channels_first ord;
          (n, c, h, v) \<leftarrow> split_shape cf s;
          (on, oc, oh, ov) \<leftarrow> split_shape cf output_shape;
          h' \<leftarrow> conv_output_length oh kr ''valid'' sr;
          v' \<leftarrow> conv_output_length ov kc ''valid'' sc;
          if 0 < c \<and> on = n \<and> oc = f \<and> h' = h \<and> v' = v
          then positive_dims (join_shape cf (n, f, oh, ov)) else None }
      | _ \<Rightarrow> None)"
| "layer_output_shape ord b (BatchNormalization m axis) ss =
     (case ss of [s] \<Rightarrow> Some s | _ \<Rightarrow> None)"
| "layer_output_shape ord b (LeakyReLU alpha) ss = (case ss of [s] \<Rightarrow> Some s | _ \<Rightarrow> None)"
| "layer_output_shape ord b (Dropout rate) ss = (case ss of [s] \<Rightarrow> Some s | _ \<Rightarrow> None)"
| "layer_output_shape ord b (Activation a) ss = (case ss of [s] \<Rightarrow> Some s | _ \<Rightarrow> None)"
| "layer_output_shape ord b (Concatenate axis) ss = concat_shape axis ss"
| "layer_output_shape ord b (Merge axis m) ss =
     (if m = ''concat'' then concat_shape axis ss else None)"

text \<open>The shape of a symbolic tensor: the shape rule of its layer on the shapes of its inputs.\<close>

fun shape_of :: "string \<Rightarrow> int \<Rightarrow> tensor \<Rightarrow> int list option" where
  "shape_of ord b (Tensor l xs) =
     (case those (map (shape_of ord b) xs) of
        None \<Rightarrow> None
      | Some ss \<Rightarrow> layer_output_shape ord b l ss)"

section \<open>Symbolic execution of the builder\<close>

text \<open>
  The tensor and the layers that \<^verbatim>\<open>padded_conv\<close> adds: \<open>n\<close> blocks of a 3 by 3 convolution
  with stride 1 and border mode \<^verbatim>\<open>'same'\<close>, a normalisation and a leaky rectification.
\<close>

primrec blocks :: "bool \<Rightarrow> nat \<Rightarrow> int \<Rightarrow> tensor \<Rightarrow> tensor" where
  "blocks K2 0 f x = x"
| "blocks K2 (Suc n) f x =
     blocks K2 n f
       (Tensor (LeakyReLU (1/5))
          [Tensor (BatchNorm K2 2 1) [Tensor (Convolution K2 f 3 1 ''same'') [x]]])"

primrec block_layers :: "bool \<Rightarrow> nat \<Rightarrow> int \<Rightarrow> layer list" where
  "block_layers K2 0 f = []"
| "block_layers K2 (Suc n) f =
     [Convolution K2 f 3 1 ''same'', BatchNorm K2 2 1, LeakyReLU (1/5)] @ block_layers K2 n f"

text \<open>The layer that \<open>concatenate_layers\<close> constructs in mode \<^verbatim>\<open>'concat'\<close>.\<close>

definition concat_layer :: "bool \<Rightarrow> int \<Rightarrow> layer" where
  "concat_layer K2 axis = (if K2 then Concatenate axis else Merge axis ''concat'')"

text \<open>\<open>returns r Q\<close>: the call \<open>r\<close> returned a value and a world that satisfy \<open>Q\<close>.\<close>

definition returns :: "(error + 'a) \<times> world \<Rightarrow> ('a \<Rightarrow> world \<Rightarrow> bool) \<Rightarrow> bool" where
  "returns r Q = (case r of (Inr a, w') \<Rightarrow> Q a w' | (Inl e, w') \<Rightarrow> False)"

text \<open>
  How the local variables of \<open>g_unet_body\<close> are wired: each one as the layers applied to
  the variables before it.
\<close>

definition wiring ::
  "bool \<Rightarrow> world \<Rightarrow> int \<Rightarrow> int \<Rightarrow> int \<Rightarrow> bool \<Rightarrow> int \<Rightarrow> tensor \<Rightarrow>
   (int \<Rightarrow> int \<Rightarrow> int \<Rightarrow> int \<Rightarrow> int list) \<Rightarrow> int \<Rightarrow> locals \<Rightarrow> bool" where
  "wiring K2 w out_ch nf bs isb npc i0 gds ax L \<longleftrightarrow>
     v_i L = i0
   \<and> v_conv1 L =
       blocks K2 (nat npc) nf (Tensor (LeakyReLU (1/5))
         [Tensor (BatchNorm K2 2 1) [Tensor (Convolution K2 nf 3 2 ''same'') [v_i L]]])
   \<and> v_conv2 L =
       blocks K2 (nat npc) (nf * 2) (Tensor (LeakyReLU (1/5))
         [Tensor (BatchNorm K2 2 1) [Tensor (Convolution K2 (nf * 2) 3 2 ''same'') [v_conv1 L]]])
   \<and> v_conv3 L =
       blocks K2 (nat npc) (nf * 4) (Tensor (LeakyReLU (1/5))
         [Tensor (BatchNorm K2 2 1) [Tensor (Convolution K2 (nf * 4) 3 2 ''same'') [v_conv2 L]]])
   \<and> v_conv4 L =
       blocks K2 (nat npc) (nf * 8) (Tensor (LeakyReLU (1/5))
         [Tensor (BatchNorm K2 2 1) [Tensor (Convolution K2 (nf * 8) 3 2 ''same'') [v_conv3 L]]])
   \<and> v_conv5 L =
       blocks K2 (nat npc) (nf * 8) (Tensor (LeakyReLU (1/5))
         [Tensor (BatchNorm K2 2 1) [Tensor (Convolution K2 (nf * 8) 3 2 ''same'') [v_conv4 L]]])
   \<and> v_conv6 L =
       blocks K2 (nat npc) (nf * 8) (Tensor (LeakyReLU (1/5))
         [Tensor (BatchNorm K2 2 1) [Tensor (Convolution K2 (nf * 8) 3 2 ''same'') [v_conv5 L]]])
   \<and> v_conv7 L =
       blocks K2 (nat npc) (nf * 8) (Tensor (LeakyReLU (1/5))
         [Tensor (BatchNorm K2 2 1) [Tensor (Convolution K2 (nf * 8) 3 2 ''same'') [v_conv6 L]]])
   \<and> v_conv8 L =
       blocks K2 (nat npc) (nf * 8) (Tensor (LeakyReLU (1/5))
         [Tensor (BatchNorm K2 2 1) [Tensor (Convolution K2 (nf * 8) 3 2 ''same'') [v_conv7 L]]])
   \<and> v_conv9 L =
       Tensor (BatchNorm K2 2 1) [Tensor (Convolution K2 (nf * 8) 2 1 ''valid'') [v_conv8 L]]
   \<and> v_x_174 L = Tensor (LeakyReLU (1/5)) [v_conv9 L]
   \<and> v_dconv1 L =
       Tensor (Dropout (1/2))
        [Tensor (BatchNorm K2 2 1)
         [Tensor (Deconvolution K2 w (nf * 8) (gds bs (nf * 8) 2 2) 2 1) [v_x_174 L]]]
   \<and> v_x_183 L = Tensor (concat_layer K2 ax) [v_dconv1 L, v_conv8 L]
   \<and> v_x_186 L = blocks K2 (nat npc) (nf * 8) (Tensor (LeakyReLU (1/5)) [v_x_183 L])
   \<and> v_dconv2 L =
       Tensor (Dropout (1/2))
        [Tensor (BatchNorm K2 2 1)
         [Tensor (Deconvolution K2 w (nf * 8) (gds bs (nf * 8) 4 4) 2 2) [v_x_186 L]]]
   \<and> v_x_192 L = Tensor (concat_layer K2 ax) [v_dconv2 L, v_conv7 L]
   \<and> v_x_195 L = blocks K2 (nat npc) (nf * 8) (Tensor (LeakyReLU (1/5)) [v_x_192 L])
   \<and> v_dconv3 L =
       Tensor (Dropout (1/2))
        [Tensor (BatchNorm K2 2 1)
         [Tensor (Deconvolution K2 w (nf * 8) (gds bs (nf * 8) 8 8) 2 2) [v_x_195 L]]]
   \<and> v_x_201 L = Tensor (concat_layer K2 ax) [v_dconv3 L, v_conv6 L]
   \<and> v_x_204 L = blocks K2 (nat npc) (nf * 8) (Tensor (LeakyReLU (1/5)) [v_x_201 L])
   \<and> v_dconv4 L =
       Tensor (BatchNorm K2 2 1)
         [Tensor (Deconvolution K2 w (nf * 8) (gds bs (nf * 8) 16 16) 2 2) [v_x_204 L]]
   \<and> v_x_209 L = Tensor (concat_layer K2 ax) [v_dconv4 L, v_conv5 L]
   \<and> v_x_212 L = blocks K2 (nat npc) (nf * 8) (Tensor (LeakyReLU (1/5)) [v_x_209 L])
   \<and> v_dconv5 L =
       Tensor (BatchNorm K2 2 1)
         [Tensor (Deconvolution K2 w (nf * 8) (gds bs (nf * 8) 32 32) 2 2) [v_x_212 L]]
   \<and> v_x_217 L = Tensor (concat_layer K2 ax) [v_dconv5 L, v_conv4 L]
   \<and> v_x_220 L = blocks K2 (nat npc) (nf * 8) (Tensor (LeakyReLU (1/5)) [v_x_217 L])
   \<and> v_dconv6 L =
       Tensor (BatchNorm K2 2 1)
         [Tensor (Deconvolution K2 w (nf * 4) (gds bs (nf * 4) 64 64) 2 2) [v_x_220 L]]
   \<and> v_x_225 L = Tensor (concat_layer K2 ax) [v_dconv6 L, v_conv3 L]
   \<and> v_x_228 L = blocks K2 (nat npc) (nf * 4) (Tensor (LeakyReLU (1/5)) [v_x_225 L])
   \<and> v_dconv7 L =
       Tensor (BatchNorm K2 2 1)
         [Tensor (Deconvolution K2 w (nf * 2) (gds bs (nf * 2) 128 128) 2 2) [v_x_228 L]]
   \<and> v_x_233 L = Tensor (concat_layer K2 ax) [v_dconv7 L, v_conv2 L]
   \<and> v_x_236 L = blocks K2 (nat npc) (nf * 2) (Tensor (LeakyReLU (1/5)) [v_x_233 L])
   \<and> v_dconv8 L =
       Tensor (BatchNorm K2 2 1)
         [Tensor (Deconvolution K2 w nf (gds bs nf 256 256) 2 2) [v_x_236 L]]
   \<and> v_x_241 L = Tensor (concat_layer K2 ax) [v_dconv8 L, v_conv1 L]
   \<and> v_x_244 L = blocks K2 (nat npc) nf (Tensor (LeakyReLU (1/5)) [v_x_241 L])
   \<and> v_dconv9 L =
       Tensor (Deconvolution K2 w out_ch (gds bs out_ch 512 512) 2 2) [v_x_244 L]
   \<and> v_act L = (if isb then ''sigmoid'' else ''tanh'')
   \<and> v_out L = Tensor (Activation (v_act L)) [v_dconv9 L]"


text \<open>The layers \<open>g_unet_body\<close> constructs, in the order of construction.\<close>

definition body_layers ::
  "bool \<Rightarrow> world \<Rightarrow> int \<Rightarrow> int \<Rightarrow> int \<Rightarrow> bool \<Rightarrow> int \<Rightarrow>
   (int \<Rightarrow> int \<Rightarrow> int \<Rightarrow> int \<Rightarrow> int list) \<Rightarrow> int \<Rightarrow> layer list" where
  "body_layers K2 w out_ch nf bs isb npc gds ax =
      [Convolution K2 nf 3 2 ''same'', BatchNorm K2 2 1, LeakyReLU (1/5)] @ block_layers K2 (nat npc) nf
    @ [Convolution K2 (nf * 2) 3 2 ''same'', BatchNorm K2 2 1, LeakyReLU (1/5)] @ block_layers K2 (nat npc) (nf * 2)
    @ [Convolution K2 (nf * 4) 3 2 ''same'', BatchNorm K2 2 1, LeakyReLU (1/5)] @ block_layers K2 (nat npc) (nf * 4)
    @ [Convolution K2 (nf * 8) 3 2 ''same'', BatchNorm K2 2 1, LeakyReLU (1/5)] @ block_layers K2 (nat npc) (nf * 8)
    @ [Convolution K2 (nf * 8) 3 2 ''same'', BatchNorm K2 2 1, LeakyReLU (1/5)] @ block_layers K2 (nat npc) (nf * 8)
    @ [Convolution K2 (nf * 8) 3 2 ''same'', BatchNorm K2 2 1, LeakyReLU (1/5)] @ block_layers K2 (nat npc) (nf * 8)
    @ [Convolution K2 (nf * 8) 3 2 ''same'', BatchNorm K2 2 1, LeakyReLU (1/5)] @ block_layers K2 (nat npc) (nf * 8)
    @ [Convolution K2 (nf * 8) 3 2 ''same'', BatchNorm K2 2 1, LeakyReLU (1/5)] @ block_layers K2 (nat npc) (nf * 8)
    @ [Convolution K2 (nf * 8) 2 1 ''valid'', BatchNorm K2 2 1, LeakyReLU (1/5)]
    @ [Deconvolution K2 w (nf * 8) (gds bs (nf * 8) 2 2) 2 1,
       BatchNorm K2 2 1,
       Dropout (1/2),
       concat_layer K2 ax,
       LeakyReLU (1/5)]
      @ block_layers K2 (nat npc) (nf * 8)
    @ [Deconvolution K2 w (nf * 8) (gds bs (nf * 8) 4 4) 2 2,
       BatchNorm K2 2 1,
       Dropout (1/2),
       concat_layer K2 ax,
       LeakyReLU (1/5)]
      @ block_layers K2 (nat npc) (nf * 8)
    @ [Deconvolution K2 w (nf * 8) (gds bs (nf * 8) 8 8) 2 2,
       BatchNorm K2 2 1,
       Dropout (1/2),
       concat_layer K2 ax,
       LeakyReLU (1/5)]
      @ block_layers K2 (nat npc) (nf * 8)
    @ [Deconvolution K2 w (nf * 8) (gds bs (nf * 8) 16 16) 2 2,
       BatchNorm K2 2 1,
       concat_layer K2 ax,
       LeakyReLU (1/5)]
      @ block_layers K2 (nat npc) (nf * 8)
    @ [Deconvolution K2 w (nf * 8) (gds bs (nf * 8) 32 32) 2 2,
       BatchNorm K2 2 1,
       concat_layer K2 ax,
       LeakyReLU (1/5)]
      @ block_layers K2 (nat npc) (nf * 8)
    @ [Deconvolution K2 w (nf * 4) (gds bs (nf * 4) 64 64) 2 2,
       BatchNorm K2 2 1,
       concat_layer K2 ax,
       LeakyReLU (1/5)]
      @ block_layers K2 (nat npc) (nf * 4)
    @ [Deconvolution K2 w (nf * 2) (gds bs (nf * 2) 128 128) 2 2,
       BatchNorm K2 2 1,
       concat_layer K2 ax,
       LeakyReLU (1/5)]
      @ block_layers K2 (nat npc) (nf * 2)
    @ [Deconvolution K2 w nf (gds bs nf 256 256) 2 2,
       BatchNorm K2 2 1,
       concat_layer K2 ax,
       LeakyReLU (1/5)]
      @ block_layers K2 (nat npc) nf
    @ [Deconvolution K2 w out_ch (gds bs out_ch 512 512) 2 2,
       Activation (if isb then ''sigmoid'' else ''tanh'')]"

subsection \<open>What the properties speak of\<close>

text \<open>
  The input tensor, the local \<^verbatim>\<open>get_deconv_shape\<close>, the concatenation axis and the line
  printed, as the dispatch of \<open>g_unet_locals\<close> chooses them under ordering \<open>ord\<close>.
\<close>

definition unet_input :: "string \<Rightarrow> int \<Rightarrow> tensor" where
  "unet_input ord in_ch =
     Tensor (InputLayer (if ord = ''th'' then [in_ch, 512, 512] else [512, 512, in_ch])) []"

definition deconv_shape :: "string \<Rightarrow> int \<Rightarrow> int \<Rightarrow> int \<Rightarrow> int \<Rightarrow> int list" where
  "deconv_shape ord = (if ord = ''th'' then get_deconv_shape_th else get_deconv_shape_tf)"

definition channel_axis :: "string \<Rightarrow> int" where
  "channel_axis ord = (if ord = ''th'' then 1 else 3)"

definition banner :: "string \<Rightarrow> string" where
  "banner ord = (if ord = ''th'' then ''TheanoShapedU-NET'' else ''TensorflowShapedU-NET'')"

text \<open>
  Samples, channels, rows and columns of a tensor, read off its shape by the layout of the
  ordering.
\<close>

definition dims_of :: "string \<Rightarrow> int \<Rightarrow> tensor \<Rightarrow> (int \<times> int \<times> int \<times> int) option" where
  "dims_of ord b t = do {
     cf \<leftarrow> channels_first ord;
     s \<leftarrow> shape_of ord b t;
     split_shape cf s }"

text \<open>The shape with these samples, channels, rows and columns under the ordering.\<close>

definition image_shape :: "string \<Rightarrow> int \<times> int \<times> int \<times> int \<Rightarrow> int list" where
  "image_shape ord d =
     (case d of (n, c, h, v) \<Rightarrow> if ord = ''th'' then [n, c, h, v] else [n, h, v, c])"

definition channels :: "string \<Rightarrow> int \<Rightarrow> tensor \<Rightarrow> int option" where
  "channels ord b t = map_option (\<lambda>(n, c, h, v). c) (dims_of ord b t)"

definition spatial :: "string \<Rightarrow> int \<Rightarrow> tensor \<Rightarrow> (int \<times> int) option" where
  "spatial ord b t = map_option (\<lambda>(n, c, h, v). (h, v)) (dims_of ord b t)"

text \<open>The layer a tensor comes out of, and the tensors that layer was called on.\<close>

definition layer_of :: "tensor \<Rightarrow> layer" where
  "layer_of t = (case t of Tensor l xs \<Rightarrow> l)"

definition inputs_of :: "tensor \<Rightarrow> tensor list" where
  "inputs_of t = (case t of Tensor l xs \<Rightarrow> xs)"

definition is_Dropout :: "layer \<Rightarrow> bool" where
  "is_Dropout l = (case l of Dropout r \<Rightarrow> True | _ \<Rightarrow> False)"

definition is_BatchNormalization :: "layer \<Rightarrow> bool" where
  "is_BatchNormalization l = (case l of BatchNormalization m a \<Rightarrow> True | _ \<Rightarrow> False)"

definition is_LeakyReLU :: "layer \<Rightarrow> bool" where
  "is_LeakyReLU l = (case l of LeakyReLU a \<Rightarrow> True | _ \<Rightarrow> False)"

text \<open>A convolution that keeps the resolution: stride 1 and border mode \<^verbatim>\<open>'same'\<close>.\<close>

definition is_padded_conv :: "layer \<Rightarrow> bool" where
  "is_padded_conv l =
     (case l of Convolution2D f k border s \<Rightarrow> border = ''same'' \<and> s = (1, 1) | _ \<Rightarrow> False)"

text \<open>
  The upsampled outputs \<^verbatim>\<open>dconv1\<close> to \<^verbatim>\<open>dconv9\<close> of the nine decoder stages, and for each
  of them whether it comes out of a dropout layer applied to a normalisation.
\<close>

definition decoder_upsampled :: "locals \<Rightarrow> tensor list" where
  "decoder_upsampled L =
     [v_dconv1 L, v_dconv2 L, v_dconv3 L, v_dconv4 L, v_dconv5 L, v_dconv6 L, v_dconv7 L,
      v_dconv8 L, v_dconv9 L]"

definition dropout_after_norm :: "tensor \<Rightarrow> bool" where
  "dropout_after_norm t =
     (is_Dropout (layer_of t) \<and>
      (case inputs_of t of [u] \<Rightarrow> is_BatchNormalization (layer_of u) | _ \<Rightarrow> False))"

definition decoder_dropout :: "(error + locals) \<times> world \<Rightarrow> bool list" where
  "decoder_dropout r =
     (case fst r of
        Inl e \<Rightarrow> []
      | Inr L \<Rightarrow> map dropout_after_norm (decoder_upsampled L))"

text \<open>
  A refinement block is a resolution-keeping convolution, a normalisation and a leaky
  rectification, one on the other; \<open>refinement_blocks t\<close> counts the blocks that end in \<open>t\<close>.
\<close>

fun refinement_blocks :: "tensor \<Rightarrow> nat" where
  "refinement_blocks (Tensor l1 [Tensor l2 [Tensor l3 [x]]]) =
     (if is_LeakyReLU l1 \<and> is_BatchNormalization l2 \<and> is_padded_conv l3
      then Suc (refinement_blocks x) else 0)"
| "refinement_blocks _ = 0"

text \<open>
  The outputs of the nine encoder stages and of the nine decoder stages: the tensors the
  next stage (or the final activation) is applied to.
\<close>

definition stage_outputs :: "locals \<Rightarrow> tensor list" where
  "stage_outputs L =
     [v_conv1 L, v_conv2 L, v_conv3 L, v_conv4 L, v_conv5 L, v_conv6 L, v_conv7 L, v_conv8 L,
      v_x_174 L,
      v_x_186 L, v_x_195 L, v_x_204 L, v_x_212 L, v_x_220 L, v_x_228 L, v_x_236 L, v_x_244 L,
      v_dconv9 L]"

definition stage_blocks :: "(error + locals) \<times> world \<Rightarrow> nat list" where
  "stage_blocks r =
     (case fst r of Inl e \<Rightarrow> [] | Inr L \<Rightarrow> map refinement_blocks (stage_outputs L))"

text \<open>
  The function an \<^verbatim>\<open>Activation\<close> layer applies to each element, on the reals (the floats of
  the framework round these): the logistic sigmoid and the hyperbolic tangent are the
  two the builder names.
\<close>

definition activation :: "string \<Rightarrow> (real \<Rightarrow> real) option" where
  "activation a =
     (if a = ''sigmoid'' then Some (\<lambda>x. 1 / (1 + exp (- x)))
      else if a = ''tanh'' then Some tanh
      else None)"

text \<open>The world \<open>g_unet\<close> leaves when it returns.\<close>

definition final_world ::
  "bool \<Rightarrow> int \<Rightarrow> int \<Rightarrow> int \<Rightarrow> int \<Rightarrow> bool \<Rightarrow> int \<Rightarrow> world \<Rightarrow> world" where
  "final_world K2 in_ch out_ch nf bs isb npc w =
     w\<lparr>stdout := stdout w @ [banner (image_dim_ordering w)],
       built := built w @
         InputLayer (if image_dim_ordering w = ''th'' then [in_ch, 512, 512]
                     else [512, 512, in_ch])
         # body_layers K2 w out_ch nf bs isb npc (deconv_shape (image_dim_ordering w))
             (channel_axis (image_dim_ordering w))\<rparr>"


subsection \<open>The loop and the wrappers\<close>

lemma padded_conv_loop_eq:
  "padded_conv_loop K2 n f x w = (blocks K2 n f x, w\<lparr>built := built w @ block_layers K2 n f\<rparr>)"
  by (induction n arbitrary: x w) (simp_all add: apply_layer_def)

lemma padded_conv_eq:
  "padded_conv K2 npc f x w =
     (blocks K2 (nat npc) f x, w\<lparr>built := built w @ block_layers K2 (nat npc) f\<rparr>)"
  by (simp add: padded_conv_def padded_conv_loop_eq)

lemma concatenate_layers_concat:
  "concatenate_layers K2 xs ax ''concat'' w =
     (Inr (Tensor (concat_layer K2 ax) xs), w\<lparr>built := built w @ [concat_layer K2 ax]\<rparr>)"
  by (simp add: concatenate_layers_def concat_layer_def apply_layer_def)

lemma Deconvolution_built [simp]: "Deconvolution K2 (built_update g w) = Deconvolution K2 w"
  by (simp add: Deconvolution_def image_data_format_def fun_eq_iff)

lemma Deconvolution_stdout [simp]: "Deconvolution K2 (stdout_update g w) = Deconvolution K2 w"
  by (simp add: Deconvolution_def image_data_format_def fun_eq_iff)

subsection \<open>One rule for each kind of statement\<close>

lemma returns_value: "Q a w \<Longrightarrow> returns (Inr a, w) Q"
  by (simp add: returns_def)

lemma returnsD: "returns r Q \<Longrightarrow> \<exists>a w'. r = (Inr a, w') \<and> Q a w'"
  by (cases r) (auto simp: returns_def split: sum.splits)

lemma returns_weaken: "returns r Q \<Longrightarrow> (\<And>a w'. Q a w' \<Longrightarrow> Q' a w') \<Longrightarrow> returns r Q'"
  by (cases r) (auto simp: returns_def split: sum.splits)

lemma returns_apply_deconv:
  assumes "\<And>x. x = Tensor (Deconvolution K2 w0 c os k s) xs \<Longrightarrow>
     returns (f x (w0\<lparr>built := built w0 @ (ls @ [Deconvolution K2 w0 c os k s])\<rparr>)) Q"
  shows "returns (Let (apply_layer (Deconvolution K2 (w0\<lparr>built := built w0 @ ls\<rparr>) c os k s) xs
            (w0\<lparr>built := built w0 @ ls\<rparr>)) (case_prod f)) Q"
  using assms by (simp add: apply_layer_def)

lemma returns_apply_layer:
  assumes "\<And>x. x = Tensor l xs \<Longrightarrow> returns (f x (w0\<lparr>built := built w0 @ (ls @ [l])\<rparr>)) Q"
  shows "returns (Let (apply_layer l xs (w0\<lparr>built := built w0 @ ls\<rparr>)) (case_prod f)) Q"
  using assms by (simp add: apply_layer_def)

lemma returns_padded_conv:
  assumes "\<And>x'. x' = blocks K2 (nat n) c x \<Longrightarrow>
             returns (f x' (w0\<lparr>built := built w0 @ (ls @ block_layers K2 (nat n) c)\<rparr>)) Q"
  shows "returns (Let (padded_conv K2 n c x (w0\<lparr>built := built w0 @ ls\<rparr>)) (case_prod f)) Q"
  using assms by (simp add: padded_conv_eq)

lemma returns_concatenate_layers:
  assumes "\<And>x. x = Tensor (concat_layer K2 ax) xs \<Longrightarrow>
             returns (f x (w0\<lparr>built := built w0 @ (ls @ [concat_layer K2 ax])\<rparr>)) Q"
  shows "returns (on_success
            (concatenate_layers K2 xs ax ''concat'' (w0\<lparr>built := built w0 @ ls\<rparr>)) f) Q"
  using assms by (simp add: concatenate_layers_concat on_success_def)

lemma returns_Let:
  assumes "\<And>x. x = v \<Longrightarrow> returns (f x) Q"
  shows "returns (Let v f) Q"
  using assms by simp

subsection \<open>The body\<close>

lemma g_unet_body_returns:
  "returns
     (g_unet_body K2 out_ch nf bs isb npc i0 gds \<lparr>mode = ''concat'', concat_axis = ax\<rparr>
        (w\<lparr>built := built w @ ls0\<rparr>))
     (\<lambda>L w'. wiring K2 w out_ch nf bs isb npc i0 gds ax L \<and>
        w' = w\<lparr>built := built w @ ls0 @ body_layers K2 w out_ch nf bs isb npc gds ax\<rparr>)"
  unfolding g_unet_body_def merge_params.select_convs wiring_def body_layers_def
  apply (intro returns_apply_deconv returns_apply_layer returns_padded_conv
      returns_concatenate_layers returns_Let)
  apply (rule returns_value)
  apply (simp (no_asm) only: locals.select_convs)
  apply (simp (no_asm_simp))
  done

lemma wiring_facts:
  assumes "wiring K2 w out_ch nf bs isb npc i0 gds ax L"
  shows "v_i L = i0"
    and "v_conv1 L =
       blocks K2 (nat npc) nf (Tensor (LeakyReLU (1/5))
         [Tensor (BatchNorm K2 2 1) [Tensor (Convolution K2 nf 3 2 ''same'') [v_i L]]])"
    and "v_conv2 L =
       blocks K2 (nat npc) (nf * 2) (Tensor (LeakyReLU (1/5))
         [Tensor (BatchNorm K2 2 1) [Tensor (Convolution K2 (nf * 2) 3 2 ''same'') [v_conv1 L]]])"
    and "v_conv3 L =
       blocks K2 (nat npc) (nf * 4) (Tensor (LeakyReLU (1/5))
         [Tensor (BatchNorm K2 2 1) [Tensor (Convolution K2 (nf * 4) 3 2 ''same'') [v_conv2 L]]])"
    and "v_conv4 L =
       blocks K2 (nat npc) (nf * 8) (Tensor (LeakyReLU (1/5))
         [Tensor (BatchNorm K2 2 1) [Tensor (Convolution K2 (nf * 8) 3 2 ''same'') [v_conv3 L]]])"
    and "v_conv5 L =
       blocks K2 (nat npc) (nf * 8) (Tensor (LeakyReLU (1/5))
         [Tensor (BatchNorm K2 2 1) [Tensor (Convolution K2 (nf * 8) 3 2 ''same'') [v_conv4 L]]])"
    and "v_conv6 L =
       blocks K2 (nat npc) (nf * 8) (Tensor (LeakyReLU (1/5))
         [Tensor (BatchNorm K2 2 1) [Tensor (Convolution K2 (nf * 8) 3 2 ''same'') [v_conv5 L]]])"
    and "v_conv7 L =
       blocks K2 (nat npc) (nf * 8) (Tensor (LeakyReLU (1/5))
         [Tensor (BatchNorm K2 2 1) [Tensor (Convolution K2 (nf * 8) 3 2 ''same'') [v_conv6 L]]])"
    and "v_conv8 L =
       blocks K2 (nat npc) (nf * 8) (Tensor (LeakyReLU (1/5))
         [Tensor (BatchNorm K2 2 1) [Tensor (Convolution K2 (nf * 8) 3 2 ''same'') [v_conv7 L]]])"
    and "v_conv9 L =
       Tensor (BatchNorm K2 2 1) [Tensor (Convolution K2 (nf * 8) 2 1 ''valid'') [v_conv8 L]]"
    and "v_x_174 L = Tensor (LeakyReLU (1/5)) [v_conv9 L]"
    and "v_dconv1 L =
       Tensor (Dropout (1/2))
        [Tensor (BatchNorm K2 2 1)
         [Tensor (Deconvolution K2 w (nf * 8) (gds bs (nf * 8) 2 2) 2 1) [v_x_174 L]]]"
    and "v_x_183 L = Tensor (concat_layer K2 ax) [v_dconv1 L, v_conv8 L]"
    and "v_x_186 L = blocks K2 (nat npc) (nf * 8) (Tensor (LeakyReLU (1/5)) [v_x_183 L])"
    and "v_dconv2 L =
       Tensor (Dropout (1/2))
        [Tensor (BatchNorm K2 2 1)
         [Tensor (Deconvolution K2 w (nf * 8) (gds bs (nf * 8) 4 4) 2 2) [v_x_186 L]]]"
    and "v_x_192 L = Tensor (concat_layer K2 ax) [v_dconv2 L, v_conv7 L]"
    and "v_x_195 L = blocks K2 (nat npc) (nf * 8) (Tensor (LeakyReLU (1/5)) [v_x_192 L])"
    and "v_dconv3 L =
       Tensor (Dropout (1/2))
        [Tensor (BatchNorm K2 2 1)
         [Tensor (Deconvolution K2 w (nf * 8) (gds bs (nf * 8) 8 8) 2 2) [v_x_195 L]]]"
    and "v_x_201 L = Tensor (concat_layer K2 ax) [v_dconv3 L, v_conv6 L]"
    and "v_x_204 L = blocks K2 (nat npc) (nf * 8) (Tensor (LeakyReLU (1/5)) [v_x_201 L])"
    and "v_dconv4 L =
       Tensor (BatchNorm K2 2 1)
         [Tensor (Deconvolution K2 w (nf * 8) (gds bs (nf * 8) 16 16) 2 2) [v_x_204 L]]"
    and "v_x_209 L = Tensor (concat_layer K2 ax) [v_dconv4 L, v_conv5 L]"
    and "v_x_212 L = blocks K2 (nat npc) (nf * 8) (Tensor (LeakyReLU (1/5)) [v_x_209 L])"
    and "v_dconv5 L =
       Tensor (BatchNorm K2 2 1)
         [Tensor (Deconvolution K2 w (nf * 8) (gds bs (nf * 8) 32 32) 2 2) [v_x_212 L]]"
    and "v_x_217 L = Tensor (concat_layer K2 ax) [v_dconv5 L, v_conv4 L]"
    and "v_x_220 L = blocks K2 (nat npc) (nf * 8) (Tensor (LeakyReLU (1/5)) [v_x_217 L])"
    and "v_dconv6 L =
       Tensor (BatchNorm K2 2 1)
         [Tensor (Deconvolution K2 w (nf * 4) (gds bs (nf * 4) 64 64) 2 2) [v_x_220 L]]"
    and "v_x_225 L = Tensor (concat_layer K2 ax) [v_dconv6 L, v_conv3 L]"
    and "v_x_228 L = blocks K2 (nat npc) (nf * 4) (Tensor (LeakyReLU (1/5)) [v_x_225 L])"
    and "v_dconv7 L =
       Tensor (BatchNorm K2 2 1)
         [Tensor (Deconvolution K2 w (nf * 2) (gds bs (nf * 2) 128 128) 2 2) [v_x_228 L]]"
    and "v_x_233 L = Tensor (concat_layer K2 ax) [v_dconv7 L, v_conv2 L]"
    and "v_x_236 L = blocks K2 (nat npc) (nf * 2) (Tensor (LeakyReLU (1/5)) [v_x_233 L])"
    and "v_dconv8 L =
       Tensor (BatchNorm K2 2 1)
         [Tensor (Deconvolution K2 w nf (gds bs nf 256 256) 2 2) [v_x_236 L]]"
    and "v_x_241 L = Tensor (concat_layer K2 ax) [v_dconv8 L, v_conv1 L]"
    and "v_x_244 L = blocks K2 (nat npc) nf (Tensor (LeakyReLU (1/5)) [v_x_241 L])"
    and "v_dconv9 L =
       Tensor (Deconvolution K2 w out_ch (gds bs out_ch 512 512) 2 2) [v_x_244 L]"
    and "v_act L = (if isb then ''sigmoid'' else ''tanh'')"
    and "v_out L = Tensor (Activation (v_act L)) [v_dconv9 L]"
  using assms unfolding wiring_def by - ((elim conjE, assumption)+)

subsection \<open>The dispatch\<close>

lemma stdout_built_swap:
  "stdout_update g (built_update f w) = built_update f (stdout_update g w)"
  by (cases w) simp

lemma wiring_stdout [simp]:
  "wiring K2 (stdout_update g w) out_ch nf bs isb npc i0 gds ax L =
   wiring K2 w out_ch nf bs isb npc i0 gds ax L"
  unfolding wiring_def by (simp (no_asm))

lemma body_layers_stdout [simp]:
  "body_layers K2 (stdout_update g w) out_ch nf bs isb npc gds ax =
   body_layers K2 w out_ch nf bs isb npc gds ax"
  unfolding body_layers_def by (simp (no_asm))

lemma g_unet_locals_returns:
  assumes "image_dim_ordering w = ''th'' \<or> image_dim_ordering w = ''tf''"
  shows "returns (g_unet_locals K2 in_ch out_ch nf bs isb npc nm w)
     (\<lambda>L w'. wiring K2 w out_ch nf bs isb npc (unet_input (image_dim_ordering w) in_ch)
                (deconv_shape (image_dim_ordering w)) (channel_axis (image_dim_ordering w)) L \<and>
        w' = w\<lparr>stdout := stdout w @ [banner (image_dim_ordering w)],
               built := built w @ InputLayer (if image_dim_ordering w = ''th''
                            then [in_ch, 512, 512] else [512, 512, in_ch])
                 # body_layers K2 w out_ch nf bs isb npc (deconv_shape (image_dim_ordering w))
                     (channel_axis (image_dim_ordering w))\<rparr>)"
proof -
  let ?w0 = "\<lambda>s. w\<lparr>stdout := stdout w @ [s]\<rparr>"
  have body: "returns
     (g_unet_body K2 out_ch nf bs isb npc i0 gds \<lparr>mode = ''concat'', concat_axis = ax\<rparr>
        ((?w0 s)\<lparr>built := built (?w0 s) @ [l]\<rparr>))
     (\<lambda>L w'. wiring K2 (?w0 s) out_ch nf bs isb npc i0 gds ax L \<and>
        w' = (?w0 s)\<lparr>built := built (?w0 s) @ [l] @
                 body_layers K2 (?w0 s) out_ch nf bs isb npc gds ax\<rparr>)" for i0 gds ax s l
    by (rule g_unet_body_returns)
  from assms show ?thesis
  proof
    assume th: "image_dim_ordering w = ''th''"
    show ?thesis
      using body [of "unet_input ''th'' in_ch" get_deconv_shape_th 1 "''TheanoShapedU-NET''"
          "InputLayer [in_ch, 512, 512]"]
      by (simp add: g_unet_locals_def th print_def Input_def apply_layer_def unet_input_def
          deconv_shape_def channel_axis_def banner_def)
  next
    assume tf: "image_dim_ordering w = ''tf''"
    show ?thesis
      using body [of "unet_input ''tf'' in_ch" get_deconv_shape_tf 3 "''TensorflowShapedU-NET''"
          "InputLayer [512, 512, in_ch]"]
      by (simp add: g_unet_locals_def tf print_def Input_def apply_layer_def unet_input_def
          deconv_shape_def channel_axis_def banner_def stdout_built_swap)
  qed
qed


subsection \<open>Shapes, layer by layer\<close>

lemma shape_of_unary:
  "shape_of ord b (Tensor l [x]) =
     (case shape_of ord b x of None \<Rightarrow> None | Some s \<Rightarrow> layer_output_shape ord b l [s])"
  by (simp split: option.splits)

lemma split_join [simp]: "split_shape cf (join_shape cf d) = Some d"
  by (cases cf; cases d) simp_all

lemma split_shape_SomeD: "split_shape cf s = Some d \<Longrightarrow> s = join_shape cf d"
  by (induction cf s rule: split_shape.induct) auto

lemma positive_join:
  "positive_dims (join_shape cf (n, c, h, v)) =
     (if 0 < n \<and> 0 < c \<and> 0 < h \<and> 0 < v then Some (join_shape cf (n, c, h, v)) else None)"
  by (cases cf) (auto simp: positive_dims_def)

lemma channels_first_ord:
  "ord = ''th'' \<or> ord = ''tf'' \<Longrightarrow> channels_first ord = Some (ord = ''th'')"
  by (auto simp: channels_first_def)

lemma dims_of_Input:
  assumes "ord = ''th'' \<or> ord = ''tf''" "0 < b" "0 < in_ch"
  shows "dims_of ord b (unet_input ord in_ch) = Some (b, in_ch, 512, 512)"
  using assms by (auto simp: dims_of_def unet_input_def channels_first_def positive_dims_def)

lemma dims_of_BatchNorm [simp]:
  "dims_of ord b (Tensor (BatchNorm K2 m a) [x]) = dims_of ord b x"
  by (simp add: dims_of_def BatchNorm_def split: option.splits)

lemma dims_of_LeakyReLU [simp]:
  "dims_of ord b (Tensor (LeakyReLU a) [x]) = dims_of ord b x"
  by (simp add: dims_of_def split: option.splits)

lemma dims_of_Dropout [simp]:
  "dims_of ord b (Tensor (Dropout r) [x]) = dims_of ord b x"
  by (simp add: dims_of_def split: option.splits)

lemma dims_of_Activation [simp]:
  "dims_of ord b (Tensor (Activation a) [x]) = dims_of ord b x"
  by (simp add: dims_of_def split: option.splits)

lemma dims_of_Convolution:
  assumes "ord = ''th'' \<or> ord = ''tf''"
  shows "dims_of ord b (Tensor (Convolution K2 f k s bm) [x]) =
     (case dims_of ord b x of
        None \<Rightarrow> None
      | Some (n, c, h, v) \<Rightarrow>
          (case (conv_output_length h k bm s, conv_output_length v k bm s) of
             (Some oh, Some ov) \<Rightarrow>
               if 0 < c \<and> 0 < n \<and> 0 < f \<and> 0 < oh \<and> 0 < ov then Some (n, f, oh, ov) else None
           | _ \<Rightarrow> None))"
proof -
  let ?cf = "ord = ''th''"
  have cf: "channels_first ord = Some ?cf"
    using assms by (rule channels_first_ord)
  show ?thesis
  proof (cases "shape_of ord b x")
    case None
    then show ?thesis by (simp add: dims_of_def cf)
  next
    case sh: (Some sh)
    show ?thesis
    proof (cases "split_shape ?cf sh")
      case None
      with sh show ?thesis by (simp add: dims_of_def cf Convolution_def)
    next
      case (Some d)
      obtain n c h v where d: "d = (n, c, h, v)" by (cases d) auto
      show ?thesis
      proof (cases "conv_output_length h k bm s")
        case None
        with sh Some d show ?thesis by (simp add: dims_of_def cf Convolution_def)
      next
        case oh: (Some oh)
        show ?thesis
        proof (cases "conv_output_length v k bm s")
          case None
          with sh Some d oh show ?thesis by (simp add: dims_of_def cf Convolution_def)
        next
          case ov: (Some ov)
          with sh Some d oh show ?thesis
            by (simp add: dims_of_def cf Convolution_def positive_join)
        qed
      qed
    qed
  qed
qed

lemma conv_output_length_valid:
  assumes "0 < s"
  shows "conv_output_length n k ''valid'' s = Some ((n - k) div s + 1)"
proof -
  have "(n - k + 1 + s - 1) div s = ((n - k) + s) div s"
    by (simp add: algebra_simps)
  also have "\<dots> = (n - k) div s + 1"
    using assms by (simp only: div_add_self2)
  finally show ?thesis
    using assms by (simp only: conv_output_length_def) simp
qed

lemma dims_of_Deconvolution:
  assumes "ord = ''th'' \<or> ord = ''tf''" "image_dim_ordering w = ord"
  shows "dims_of ord b (Tensor (Deconvolution K2 w f (deconv_shape ord bs f oh ov) k s) [x]) =
     (case dims_of ord b x of
        None \<Rightarrow> None
      | Some (n, c, h, v) \<Rightarrow>
          if K2 then
            (if 0 < c \<and> 0 < n \<and> 0 < f \<and> 0 < h * s + max (k - s) 0 \<and> 0 < v * s + max (k - s) 0
             then Some (n, f, h * s + max (k - s) 0, v * s + max (k - s) 0) else None)
          else
            (if 0 < s \<and> 0 < c \<and> bs = n \<and> (oh - k) div s + 1 = h \<and> (ov - k) div s + 1 = v \<and>
                0 < n \<and> 0 < f \<and> 0 < oh \<and> 0 < ov
             then Some (n, f, oh, ov) else None))"
proof -
  let ?cf = "ord = ''th''"
  have cf: "channels_first ord = Some ?cf"
    using assms(1) by (rule channels_first_ord)
  have fmt: "channels_first (image_data_format w) = Some ?cf"
    using assms by (auto simp: image_data_format_def channels_first_def)
  have os: "split_shape ?cf (deconv_shape ord bs f oh ov) = Some (bs, f, oh, ov)"
    using assms(1)
    by (auto simp: deconv_shape_def get_deconv_shape_th_def get_deconv_shape_tf_def)
  show ?thesis
  proof (cases "shape_of ord b x")
    case None
    then show ?thesis by (simp add: dims_of_def cf)
  next
    case sh: (Some sh)
    show ?thesis
    proof (cases "split_shape ?cf sh")
      case None
      with sh show ?thesis by (simp add: dims_of_def cf fmt Deconvolution_def)
    next
      case (Some d)
      obtain n c h v where d: "d = (n, c, h, v)" by (cases d) auto
      show ?thesis
      proof (cases K2)
        case True
        with sh Some d show ?thesis
          by (simp add: dims_of_def cf fmt Deconvolution_def deconv_length_def positive_join)
      next
        case False
        show ?thesis
        proof (cases "0 < s")
          case True
          with False sh Some d show ?thesis
            by (simp add: dims_of_def cf os Deconvolution_def conv_output_length_valid
                positive_join)
        next
          case nonpos: False
          with False sh Some d show ?thesis
            by (simp add: dims_of_def cf os Deconvolution_def conv_output_length_def)
        qed
      qed
    qed
  qed
qed

lemma dims_of_blocks:
  assumes "ord = ''th'' \<or> ord = ''tf''"
  shows "dims_of ord b (blocks K2 m f x) =
     (if m = 0 then dims_of ord b x
      else (case dims_of ord b x of
              None \<Rightarrow> None
            | Some (n, c, h, v) \<Rightarrow>
                if 0 < c \<and> 0 < n \<and> 0 < f \<and> 0 < h \<and> 0 < v then Some (n, f, h, v) else None))"
proof (induction m arbitrary: x)
  case 0
  show ?case by simp
next
  case (Suc m)
  have step: "dims_of ord b (Tensor (Convolution K2 f 3 1 ''same'') [x]) =
      (case dims_of ord b x of
         None \<Rightarrow> None
       | Some (n, c, h, v) \<Rightarrow>
           if 0 < c \<and> 0 < n \<and> 0 < f \<and> 0 < h \<and> 0 < v then Some (n, f, h, v) else None)"
    by (simp add: dims_of_Convolution [OF assms] conv_output_length_def split: option.splits)
  show ?case
    by (simp add: Suc step split: option.splits)
qed

lemma dims_of_concat:
  assumes "ord = ''th'' \<or> ord = ''tf''"
    and x: "dims_of ord b x = Some (n, c, h, v)" and y: "dims_of ord b y = Some (n, c', h, v)"
  shows "dims_of ord b (Tensor (concat_layer K2 (channel_axis ord)) [x, y]) = Some (n, c + c', h, v)"
proof -
  let ?cf = "ord = ''th''"
  have cf: "channels_first ord = Some ?cf"
    using assms(1) by (rule channels_first_ord)
  from x cf obtain sx where sx: "shape_of ord b x = Some sx" "split_shape ?cf sx = Some (n, c, h, v)"
    by (auto simp: dims_of_def split: Option.bind_splits)
  from y cf obtain sy where sy: "shape_of ord b y = Some sy" "split_shape ?cf sy = Some (n, c', h, v)"
    by (auto simp: dims_of_def split: Option.bind_splits)
  have ex: "sx = join_shape ?cf (n, c, h, v)" "sy = join_shape ?cf (n, c', h, v)"
    using sx(2) sy(2) by (auto dest: split_shape_SomeD)
  have l: "layer_output_shape ord b (concat_layer K2 (channel_axis ord)) [sx, sy] =
             concat_shape (channel_axis ord) [sx, sy]"
    by (simp add: concat_layer_def)
  have "concat_shape (channel_axis ord) [sx, sy] = Some (join_shape ?cf (n, c + c', h, v))"
    using assms(1) unfolding ex
    by (auto simp: concat_shape_def channel_axis_def)
  with sx(1) sy(1) l show ?thesis
    by (simp add: dims_of_def cf)
qed

lemma dims_of_shape:
  assumes "ord = ''th'' \<or> ord = ''tf''" and "dims_of ord b t = Some (n, c, h, v)"
  shows "shape_of ord b t = Some (if ord = ''th'' then [n, c, h, v] else [n, h, v, c])"
  using assms
  by (auto simp: dims_of_def channels_first_def split: option.splits Option.bind_splits
      dest!: split_shape_SomeD)

subsection \<open>Shapes, stage by stage\<close>

lemma unet_dims:
  assumes W: "wiring K2 w out_ch nf bs isb npc (unet_input ord in_ch) (deconv_shape ord)
                (channel_axis ord) L"
    and ord: "ord = ''th'' \<or> ord = ''tf''" and w: "image_dim_ordering w = ord"
    and pos: "0 < in_ch" "0 < out_ch" "0 < nf" "0 < bs"
  shows "dims_of ord bs (v_i L) = Some (bs, in_ch, 512, 512)"
    and "dims_of ord bs (v_conv1 L) = Some (bs, nf, 256, 256)"
    and "dims_of ord bs (v_conv2 L) = Some (bs, nf * 2, 128, 128)"
    and "dims_of ord bs (v_conv3 L) = Some (bs, nf * 4, 64, 64)"
    and "dims_of ord bs (v_conv4 L) = Some (bs, nf * 8, 32, 32)"
    and "dims_of ord bs (v_conv5 L) = Some (bs, nf * 8, 16, 16)"
    and "dims_of ord bs (v_conv6 L) = Some (bs, nf * 8, 8, 8)"
    and "dims_of ord bs (v_conv7 L) = Some (bs, nf * 8, 4, 4)"
    and "dims_of ord bs (v_conv8 L) = Some (bs, nf * 8, 2, 2)"
    and "dims_of ord bs (v_conv9 L) = Some (bs, nf * 8, 1, 1)"
    and "dims_of ord bs (v_x_174 L) = Some (bs, nf * 8, 1, 1)"
    and "dims_of ord bs (v_dconv1 L) = Some (bs, nf * 8, 2, 2)"
    and "dims_of ord bs (v_x_183 L) = Some (bs, nf * 16, 2, 2)"
    and "dims_of ord bs (v_x_186 L) = Some (bs, if 0 < npc then nf * 8 else nf * 16, 2, 2)"
    and "dims_of ord bs (v_dconv2 L) = Some (bs, nf * 8, 4, 4)"
    and "dims_of ord bs (v_x_192 L) = Some (bs, nf * 16, 4, 4)"
    and "dims_of ord bs (v_x_195 L) = Some (bs, if 0 < npc then nf * 8 else nf * 16, 4, 4)"
    and "dims_of ord bs (v_dconv3 L) = Some (bs, nf * 8, 8, 8)"
    and "dims_of ord bs (v_x_201 L) = Some (bs, nf * 16, 8, 8)"
    and "dims_of ord bs (v_x_204 L) = Some (bs, if 0 < npc then nf * 8 else nf * 16, 8, 8)"
    and "dims_of ord bs (v_dconv4 L) = Some (bs, nf * 8, 16, 16)"
    and "dims_of ord bs (v_x_209 L) = Some (bs, nf * 16, 16, 16)"
    and "dims_of ord bs (v_x_212 L) = Some (bs, if 0 < npc then nf * 8 else nf * 16, 16, 16)"
    and "dims_of ord bs (v_dconv5 L) = Some (bs, nf * 8, 32, 32)"
    and "dims_of ord bs (v_x_217 L) = Some (bs, nf * 16, 32, 32)"
    and "dims_of ord bs (v_x_220 L) = Some (bs, if 0 < npc then nf * 8 else nf * 16, 32, 32)"
    and "dims_of ord bs (v_dconv6 L) = Some (bs, nf * 4, 64, 64)"
    and "dims_of ord bs (v_x_225 L) = Some (bs, nf * 8, 64, 64)"
    and "dims_of ord bs (v_x_228 L) = Some (bs, if 0 < npc then nf * 4 else nf * 8, 64, 64)"
    and "dims_of ord bs (v_dconv7 L) = Some (bs, nf * 2, 128, 128)"
    and "dims_of ord bs (v_x_233 L) = Some (bs, nf * 4, 128, 128)"
    and "dims_of ord bs (v_x_236 L) = Some (bs, if 0 < npc then nf * 2 else nf * 4, 128, 128)"
    and "dims_of ord bs (v_dconv8 L) = Some (bs, nf, 256, 256)"
    and "dims_of ord bs (v_x_241 L) = Some (bs, nf * 2, 256, 256)"
    and "dims_of ord bs (v_x_244 L) = Some (bs, if 0 < npc then nf else nf * 2, 256, 256)"
    and "dims_of ord bs (v_dconv9 L) = Some (bs, out_ch, 512, 512)"
    and "dims_of ord bs (v_out L) = Some (bs, out_ch, 512, 512)"
proof -
  note F = wiring_facts [OF W]
  note C = dims_of_Convolution [OF ord] and B = dims_of_blocks [OF ord]
    and Dc = dims_of_Deconvolution [OF ord w]
  show d_i: "dims_of ord bs (v_i L) = Some (bs, in_ch, 512, 512)"
    by (simp add: F(1) dims_of_Input ord pos)
  show d_conv1: "dims_of ord bs (v_conv1 L) = Some (bs, nf, 256, 256)"
    by (simp add: F(2) B C d_i conv_output_length_def pos)
  show d_conv2: "dims_of ord bs (v_conv2 L) = Some (bs, nf * 2, 128, 128)"
    by (simp add: F(3) B C d_conv1 conv_output_length_def pos)
  show d_conv3: "dims_of ord bs (v_conv3 L) = Some (bs, nf * 4, 64, 64)"
    by (simp add: F(4) B C d_conv2 conv_output_length_def pos)
  show d_conv4: "dims_of ord bs (v_conv4 L) = Some (bs, nf * 8, 32, 32)"
    by (simp add: F(5) B C d_conv3 conv_output_length_def pos)
  show d_conv5: "dims_of ord bs (v_conv5 L) = Some (bs, nf * 8, 16, 16)"
    by (simp add: F(6) B C d_conv4 conv_output_length_def pos)
  show d_conv6: "dims_of ord bs (v_conv6 L) = Some (bs, nf * 8, 8, 8)"
    by (simp add: F(7) B C d_conv5 conv_output_length_def pos)
  show d_conv7: "dims_of ord bs (v_conv7 L) = Some (bs, nf * 8, 4, 4)"
    by (simp add: F(8) B C d_conv6 conv_output_length_def pos)
  show d_conv8: "dims_of ord bs (v_conv8 L) = Some (bs, nf * 8, 2, 2)"
    by (simp add: F(9) B C d_conv7 conv_output_length_def pos)
  show d_conv9: "dims_of ord bs (v_conv9 L) = Some (bs, nf * 8, 1, 1)"
    by (simp add: F(10) C d_conv8 conv_output_length_def pos)
  show d_x_174: "dims_of ord bs (v_x_174 L) = Some (bs, nf * 8, 1, 1)"
    by (simp add: F(11) d_conv9)
  show d_dconv1: "dims_of ord bs (v_dconv1 L) = Some (bs, nf * 8, 2, 2)"
    by (simp add: F(12) Dc d_x_174 pos)
  show d_x_183: "dims_of ord bs (v_x_183 L) = Some (bs, nf * 16, 2, 2)"
    using dims_of_concat [OF ord d_dconv1 d_conv8, of K2] by (simp add: F(13))
  show d_x_186: "dims_of ord bs (v_x_186 L) = Some (bs, if 0 < npc then nf * 8 else nf * 16, 2, 2)"
    by (simp add: F(14) B d_x_183 pos)
  show d_dconv2: "dims_of ord bs (v_dconv2 L) = Some (bs, nf * 8, 4, 4)"
    by (simp add: F(15) Dc d_x_186 pos)
  show d_x_192: "dims_of ord bs (v_x_192 L) = Some (bs, nf * 16, 4, 4)"
    using dims_of_concat [OF ord d_dconv2 d_conv7, of K2] by (simp add: F(16))
  show d_x_195: "dims_of ord bs (v_x_195 L) = Some (bs, if 0 < npc then nf * 8 else nf * 16, 4, 4)"
    by (simp add: F(17) B d_x_192 pos)
  show d_dconv3: "dims_of ord bs (v_dconv3 L) = Some (bs, nf * 8, 8, 8)"
    by (simp add: F(18) Dc d_x_195 pos)
  show d_x_201: "dims_of ord bs (v_x_201 L) = Some (bs, nf * 16, 8, 8)"
    using dims_of_concat [OF ord d_dconv3 d_conv6, of K2] by (simp add: F(19))
  show d_x_204: "dims_of ord bs (v_x_204 L) = Some (bs, if 0 < npc then nf * 8 else nf * 16, 8, 8)"
    by (simp add: F(20) B d_x_201 pos)
  show d_dconv4: "dims_of ord bs (v_dconv4 L) = Some (bs, nf * 8, 16, 16)"
    by (simp add: F(21) Dc d_x_204 pos)
  show d_x_209: "dims_of ord bs (v_x_209 L) = Some (bs, nf * 16, 16, 16)"
    using dims_of_concat [OF ord d_dconv4 d_conv5, of K2] by (simp add: F(22))
  show d_x_212: "dims_of ord bs (v_x_212 L) = Some (bs, if 0 < npc then nf * 8 else nf * 16, 16, 16)"
    by (simp add: F(23) B d_x_209 pos)
  show d_dconv5: "dims_of ord bs (v_dconv5 L) = Some (bs, nf * 8, 32, 32)"
    by (simp add: F(24) Dc d_x_212 pos)
  show d_x_217: "dims_of ord bs (v_x_217 L) = Some (bs, nf * 16, 32, 32)"
    using dims_of_concat [OF ord d_dconv5 d_conv4, of K2] by (simp add: F(25))
  show d_x_220: "dims_of ord bs (v_x_220 L) = Some (bs, if 0 < npc then nf * 8 else nf * 16, 32, 32)"
    by (simp add: F(26) B d_x_217 pos)
  show d_dconv6: "dims_of ord bs (v_dconv6 L) = Some (bs, nf * 4, 64, 64)"
    by (simp add: F(27) Dc d_x_220 pos)
  show d_x_225: "dims_of ord bs (v_x_225 L) = Some (bs, nf * 8, 64, 64)"
    using dims_of_concat [OF ord d_dconv6 d_conv3, of K2] by (simp add: F(28))
  show d_x_228: "dims_of ord bs (v_x_228 L) = Some (bs, if 0 < npc then nf * 4 else nf * 8, 64, 64)"
    by (simp add: F(29) B d_x_225 pos)
  show d_dconv7: "dims_of ord bs (v_dconv7 L) = Some (bs, nf * 2, 128, 128)"
    by (simp add: F(30) Dc d_x_228 pos)
  show d_x_233: "dims_of ord bs (v_x_233 L) = Some (bs, nf * 4, 128, 128)"
    using dims_of_concat [OF ord d_dconv7 d_conv2, of K2] by (simp add: F(31))
  show d_x_236: "dims_of ord bs (v_x_236 L) = Some (bs, if 0 < npc then nf * 2 else nf * 4, 128, 128)"
    by (simp add: F(32) B d_x_233 pos)
  show d_dconv8: "dims_of ord bs (v_dconv8 L) = Some (bs, nf, 256, 256)"
    by (simp add: F(33) Dc d_x_236 pos)
  show d_x_241: "dims_of ord bs (v_x_241 L) = Some (bs, nf * 2, 256, 256)"
    using dims_of_concat [OF ord d_dconv8 d_conv1, of K2] by (simp add: F(34))
  show d_x_244: "dims_of ord bs (v_x_244 L) = Some (bs, if 0 < npc then nf else nf * 2, 256, 256)"
    by (simp add: F(35) B d_x_241 pos)
  show d_dconv9: "dims_of ord bs (v_dconv9 L) = Some (bs, out_ch, 512, 512)"
    by (simp add: F(36) Dc d_x_244 pos)
  show d_out: "dims_of ord bs (v_out L) = Some (bs, out_ch, 512, 512)"
    by (simp add: F(38) d_dconv9)
qed

subsection \<open>What a call returns\<close>

lemma g_unet_locals_result:
  assumes "image_dim_ordering w = ''th'' \<or> image_dim_ordering w = ''tf''"
  obtains L where
    "g_unet_locals K2 in_ch out_ch nf bs isb npc nm w =
       (Inr L, final_world K2 in_ch out_ch nf bs isb npc w)"
    and "wiring K2 w out_ch nf bs isb npc (unet_input (image_dim_ordering w) in_ch)
           (deconv_shape (image_dim_ordering w)) (channel_axis (image_dim_ordering w)) L"
  using returnsD [OF g_unet_locals_returns [OF assms, of K2 in_ch out_ch nf bs isb npc nm]]
  unfolding final_world_def by blast

lemma g_unet_of_locals:
  assumes "g_unet_locals K2 in_ch out_ch nf bs isb npc nm w = (Inr L, w')"
  shows "g_unet K2 in_ch out_ch nf bs isb npc nm w =
           (Inr \<lparr>inputs = v_i L, outputs = v_out L, name = nm\<rparr>, w')"
  using assms by (simp add: g_unet_def)

lemma refinement_blocks_blocks:
  "refinement_blocks (blocks K2 n f x) = n + refinement_blocks x"
  by (induction n arbitrary: x)
    (simp_all add: Convolution_def BatchNorm_def is_LeakyReLU_def is_BatchNormalization_def
      is_padded_conv_def)

lemma dims_of_image_shape:
  assumes "ord = ''th'' \<or> ord = ''tf''" and "dims_of ord b t = Some d"
  shows "shape_of ord b t = Some (image_shape ord d)"
proof -
  obtain n c h v where d: "d = (n, c, h, v)" by (cases d) auto
  show ?thesis
    using dims_of_shape [OF assms(1) assms(2) [unfolded d]] by (simp add: image_shape_def d)
qed

lemma not_LeakyReLU_blocks:
  assumes "\<not> is_LeakyReLU l"
  shows "refinement_blocks (Tensor l xs) = 0"
  using assms by (cases "Tensor l xs" rule: refinement_blocks.cases) auto

lemma is_LeakyReLU_wrappers [simp]:
  "\<not> is_LeakyReLU (Deconvolution K2 w f os k s)"
  "\<not> is_LeakyReLU (Convolution K2 f k s bm)"
  "\<not> is_LeakyReLU (BatchNorm K2 m a)"
  "\<not> is_LeakyReLU (concat_layer K2 ax)"
  by (simp_all add: is_LeakyReLU_def Deconvolution_def Convolution_def BatchNorm_def
      concat_layer_def)

lemma is_Dropout_wrappers [simp]:
  "\<not> is_Dropout (Deconvolution K2 w f os k s)"
  "\<not> is_Dropout (Convolution K2 f k s bm)"
  "\<not> is_Dropout (BatchNorm K2 m a)"
  "\<not> is_Dropout (concat_layer K2 ax)"
  "\<not> is_Dropout (LeakyReLU al)"
  "\<not> is_Dropout (Activation ac)"
  "\<not> is_Dropout (InputLayer sh)"
  "is_Dropout (Dropout r)"
  by (simp_all add: is_Dropout_def Deconvolution_def Convolution_def BatchNorm_def
      concat_layer_def)

lemma is_BatchNormalization_wrappers [simp]:
  "is_BatchNormalization (BatchNorm K2 m a)"
  "\<not> is_BatchNormalization (Deconvolution K2 w f os k s)"
  by (simp_all add: is_BatchNormalization_def BatchNorm_def Deconvolution_def)

lemma filter_Dropout_block_layers [simp]: "filter is_Dropout (block_layers K2 n f) = []"
  by (induction n) simp_all

lemma length_block_layers [simp]: "length (block_layers K2 n f) = 3 * n"
  by (induction n) simp_all

lemma refinement_blocks_stride2 [simp]:
  "refinement_blocks (Tensor (LeakyReLU a)
     [Tensor (BatchNorm K2 m ax) [Tensor (Convolution K2 f k 2 bm) [x]]]) = 0"
  by (simp add: Convolution_def is_padded_conv_def)

lemma refinement_blocks_valid [simp]:
  "refinement_blocks (Tensor (LeakyReLU a)
     [Tensor (BatchNorm K2 m ax) [Tensor (Convolution K2 f k s ''valid'') [x]]]) = 0"
  by (simp add: Convolution_def is_padded_conv_def)

lemma refinement_blocks_concat [simp]:
  "refinement_blocks (Tensor (LeakyReLU a) [Tensor (concat_layer K2 c) [x, y]]) = 0"
  by simp

section \<open>Properties\<close>

subsection \<open>Shapes\<close>

text \<open>
  C1. For positive \<open>in_ch\<close>, \<open>out_ch\<close>, \<open>nf\<close> and \<open>batch_size\<close>, under either supported
  ordering, \<open>g_unet\<close> returns the model that goes from the input placeholder \<open>v_i L\<close> to the
  tensor \<open>v_out L\<close>, wired from that input through all nine encoder and nine decoder
  stages as \<open>wiring\<close> says. On a batch of \<open>batch_size\<close> samples the input has shape
  \<open>(batch_size, in_ch, 512, 512)\<close>, the outputs of the encoder stages have \<open>nf\<close>, \<open>2 nf\<close>,
  \<open>4 nf\<close> and then \<open>8 nf\<close> channels at sizes 256 down to 1, the upsampled outputs of the
  decoder stages have \<open>8 nf\<close> down to \<open>nf\<close> channels at sizes 2 up to 256, and the last
  stage and the output have shape \<open>(batch_size, out_ch, 512, 512)\<close>; under \<^verbatim>\<open>'tf'\<close> every
  shape has its channels last. This holds for either Keras version and any number of
  refinement blocks.
\<close>

theorem g_unet_output_shape:
  assumes "image_dim_ordering w = ''th'' \<or> image_dim_ordering w = ''tf''"
    and "0 < in_ch" and "0 < out_ch" and "0 < nf" and "0 < batch_size"
  shows "\<exists>L w'.
      g_unet_locals KERAS_2 in_ch out_ch nf batch_size is_binary num_padded_conv nm
        w = (Inr L, w') \<and>
      g_unet KERAS_2 in_ch out_ch nf batch_size is_binary num_padded_conv nm
        w =
        (Inr \<lparr>inputs = v_i L, outputs = v_out L, name = nm\<rparr>, w') \<and>
      wiring KERAS_2 w out_ch nf batch_size is_binary num_padded_conv (unet_input (image_dim_ordering w) in_ch)
        (deconv_shape (image_dim_ordering w)) (channel_axis (image_dim_ordering w)) L \<and>
      map (shape_of (image_dim_ordering w) batch_size)
          [v_i L, v_conv1 L, v_conv2 L, v_conv3 L, v_conv4 L,
           v_conv5 L, v_conv6 L, v_conv7 L, v_conv8 L, v_x_174 L] =
        map (\<lambda>d. Some (image_shape (image_dim_ordering w) d))
          [(batch_size, in_ch, 512, 512), (batch_size, nf, 256, 256), (batch_size, nf * 2, 128, 128),
           (batch_size, nf * 4, 64, 64), (batch_size, nf * 8, 32, 32), (batch_size, nf * 8, 16, 16),
           (batch_size, nf * 8, 8, 8), (batch_size, nf * 8, 4, 4), (batch_size, nf * 8, 2, 2),
           (batch_size, nf * 8, 1, 1)] \<and>
      map (shape_of (image_dim_ordering w) batch_size)
          [v_dconv1 L, v_dconv2 L, v_dconv3 L, v_dconv4 L, v_dconv5 L,
           v_dconv6 L, v_dconv7 L, v_dconv8 L, v_dconv9 L, v_out L] =
        map (\<lambda>d. Some (image_shape (image_dim_ordering w) d))
          [(batch_size, nf * 8, 2, 2), (batch_size, nf * 8, 4, 4), (batch_size, nf * 8, 8, 8),
           (batch_size, nf * 8, 16, 16), (batch_size, nf * 8, 32, 32), (batch_size, nf * 4, 64, 64),
           (batch_size, nf * 2, 128, 128), (batch_size, nf, 256, 256), (batch_size, out_ch, 512, 512),
           (batch_size, out_ch, 512, 512)]"
proof -
  let ?w' = "final_world KERAS_2 in_ch out_ch nf batch_size is_binary num_padded_conv w"
  obtain L where r: "g_unet_locals KERAS_2 in_ch out_ch nf batch_size is_binary num_padded_conv
        nm w = (Inr L, ?w')"
    and W: "wiring KERAS_2 w out_ch nf batch_size is_binary num_padded_conv
        (unet_input (image_dim_ordering w) in_ch) (deconv_shape (image_dim_ordering w))
        (channel_axis (image_dim_ordering w)) L"
    using assms(1) by (rule g_unet_locals_result)
  note d = unet_dims [OF W assms(1) refl assms(2-5)]
  note s = d [THEN dims_of_image_shape [OF assms(1)]]
  note F = wiring_facts [OF W]
  have c1: "map (shape_of (image_dim_ordering w) batch_size)
        [v_i L, v_conv1 L, v_conv2 L, v_conv3 L, v_conv4 L,
         v_conv5 L, v_conv6 L, v_conv7 L, v_conv8 L, v_x_174 L] =
      map (\<lambda>d. Some (image_shape (image_dim_ordering w) d))
        [(batch_size, in_ch, 512, 512), (batch_size, nf, 256, 256), (batch_size, nf * 2, 128, 128),
         (batch_size, nf * 4, 64, 64), (batch_size, nf * 8, 32, 32), (batch_size, nf * 8, 16, 16),
         (batch_size, nf * 8, 8, 8), (batch_size, nf * 8, 4, 4), (batch_size, nf * 8, 2, 2),
         (batch_size, nf * 8, 1, 1)]"
    by (simp add: s)
  have c2: "map (shape_of (image_dim_ordering w) batch_size)
        [v_dconv1 L, v_dconv2 L, v_dconv3 L, v_dconv4 L, v_dconv5 L,
         v_dconv6 L, v_dconv7 L, v_dconv8 L, v_dconv9 L, v_out L] =
      map (\<lambda>d. Some (image_shape (image_dim_ordering w) d))
        [(batch_size, nf * 8, 2, 2), (batch_size, nf * 8, 4, 4), (batch_size, nf * 8, 8, 8),
         (batch_size, nf * 8, 16, 16), (batch_size, nf * 8, 32, 32), (batch_size, nf * 4, 64, 64),
         (batch_size, nf * 2, 128, 128), (batch_size, nf, 256, 256), (batch_size, out_ch, 512, 512),
         (batch_size, out_ch, 512, 512)]"
    by (simp add: s)
  show ?thesis
    by (rule exI [of _ L], rule exI [of _ ?w'])
      (intro conjI r g_unet_of_locals [OF r] W c1 c2)
qed

theorem g_unet_output_shape_witness:
  "\<exists>L w'.
      g_unet_locals False 3 1 64 4 False 2 ''unet''
        \<lparr>image_dim_ordering = ''th'', stdout = [], built = []\<rparr> = (Inr L, w') \<and>
      g_unet False 3 1 64 4 False 2 ''unet''
        \<lparr>image_dim_ordering = ''th'', stdout = [], built = []\<rparr> =
        (Inr \<lparr>inputs = v_i L, outputs = v_out L, name = ''unet''\<rparr>, w') \<and>
      wiring False 
        \<lparr>image_dim_ordering = ''th'', stdout = [], built = []\<rparr>
        1 64 4 False 2 (unet_input ''th'' 3)
        (deconv_shape ''th'') (channel_axis ''th'') L \<and>
      map (shape_of ''th'' 4)
          [v_i L, v_conv1 L, v_conv2 L, v_conv3 L, v_conv4 L,
           v_conv5 L, v_conv6 L, v_conv7 L, v_conv8 L, v_x_174 L] =
        map (\<lambda>d. Some (image_shape ''th'' d))
          [(4, 3, 512, 512), (4, 64, 256, 256), (4, 128, 128, 128),
           (4, 256, 64, 64), (4, 512, 32, 32), (4, 512, 16, 16),
           (4, 512, 8, 8), (4, 512, 4, 4), (4, 512, 2, 2),
           (4, 512, 1, 1)] \<and>
      map (shape_of ''th'' 4)
          [v_dconv1 L, v_dconv2 L, v_dconv3 L, v_dconv4 L, v_dconv5 L,
           v_dconv6 L, v_dconv7 L, v_dconv8 L, v_dconv9 L, v_out L] =
        map (\<lambda>d. Some (image_shape ''th'' d))
          [(4, 512, 2, 2), (4, 512, 4, 4), (4, 512, 8, 8),
           (4, 512, 16, 16), (4, 512, 32, 32), (4, 256, 64, 64),
           (4, 128, 128, 128), (4, 64, 256, 256), (4, 1, 512, 512),
           (4, 1, 512, 512)]"
  using g_unet_output_shape
    [of "\<lparr>image_dim_ordering = ''th'', stdout = [], built = []\<rparr>" 3 1 64 4 False False 2 "''unet''"]
  by simp


text \<open>
  C5. The spatial size is 512 by 512 at the input, halves at each of the nine encoder
  stages down to 1 by 1 (the last stage takes 2 by 2 to 1 by 1 with a 2 by 2 convolution
  of stride 1 and border mode \<^verbatim>\<open>'valid'\<close>), doubles at each of the nine decoder stages, and is
  512 by 512 again at the output.
\<close>

theorem g_unet_spatial_sizes:
  assumes "image_dim_ordering w = ''th'' \<or> image_dim_ordering w = ''tf''"
    and "0 < in_ch" and "0 < out_ch" and "0 < nf" and "0 < batch_size"
  shows "\<exists>L w'.
      g_unet_locals KERAS_2 in_ch out_ch nf batch_size is_binary num_padded_conv nm
        w = (Inr L, w') \<and>
      g_unet KERAS_2 in_ch out_ch nf batch_size is_binary num_padded_conv nm
        w =
        (Inr \<lparr>inputs = v_i L, outputs = v_out L, name = nm\<rparr>, w') \<and>
      wiring KERAS_2 w out_ch nf batch_size is_binary num_padded_conv (unet_input (image_dim_ordering w) in_ch)
        (deconv_shape (image_dim_ordering w)) (channel_axis (image_dim_ordering w)) L \<and>
      spatial (image_dim_ordering w) batch_size (v_i L) = Some (512, 512) \<and>
      map (spatial (image_dim_ordering w) batch_size)
          [v_conv1 L, v_conv2 L, v_conv3 L, v_conv4 L, v_conv5 L,
           v_conv6 L, v_conv7 L, v_conv8 L, v_x_174 L] =
        map Some [(256, 256), (128, 128), (64, 64), (32, 32), (16, 16),
           (8, 8), (4, 4), (2, 2), (1, 1)] \<and>
      v_conv9 L = Tensor (BatchNorm KERAS_2 2 1)
                    [Tensor (Convolution KERAS_2 (nf * 8) 2 1 ''valid'') [v_conv8 L]] \<and>
      v_x_174 L = Tensor (LeakyReLU (1/5)) [v_conv9 L] \<and>
      map (spatial (image_dim_ordering w) batch_size)
          [v_dconv1 L, v_dconv2 L, v_dconv3 L, v_dconv4 L, v_dconv5 L,
           v_dconv6 L, v_dconv7 L, v_dconv8 L, v_dconv9 L] =
        map Some [(2, 2), (4, 4), (8, 8), (16, 16), (32, 32),
           (64, 64), (128, 128), (256, 256), (512, 512)] \<and>
      spatial (image_dim_ordering w) batch_size (v_out L) = Some (512, 512)"
proof -
  let ?w' = "final_world KERAS_2 in_ch out_ch nf batch_size is_binary num_padded_conv w"
  obtain L where r: "g_unet_locals KERAS_2 in_ch out_ch nf batch_size is_binary num_padded_conv
        nm w = (Inr L, ?w')"
    and W: "wiring KERAS_2 w out_ch nf batch_size is_binary num_padded_conv
        (unet_input (image_dim_ordering w) in_ch) (deconv_shape (image_dim_ordering w))
        (channel_axis (image_dim_ordering w)) L"
    using assms(1) by (rule g_unet_locals_result)
  note d = unet_dims [OF W assms(1) refl assms(2-5)]
  note s = d [THEN dims_of_image_shape [OF assms(1)]]
  note F = wiring_facts [OF W]
  have c1: "spatial (image_dim_ordering w) batch_size (v_i L) = Some (512, 512)"
    by (simp add: spatial_def d)
  have c2: "map (spatial (image_dim_ordering w) batch_size)
        [v_conv1 L, v_conv2 L, v_conv3 L, v_conv4 L, v_conv5 L,
         v_conv6 L, v_conv7 L, v_conv8 L, v_x_174 L] =
      map Some [(256, 256), (128, 128), (64, 64), (32, 32), (16, 16),
         (8, 8), (4, 4), (2, 2), (1, 1)]"
    by (simp add: spatial_def d)
  have c3: "v_conv9 L = Tensor (BatchNorm KERAS_2 2 1)
                  [Tensor (Convolution KERAS_2 (nf * 8) 2 1 ''valid'') [v_conv8 L]]"
    by (rule F(10))
  have c4: "v_x_174 L = Tensor (LeakyReLU (1/5)) [v_conv9 L]"
    by (rule F(11))
  have c5: "map (spatial (image_dim_ordering w) batch_size)
        [v_dconv1 L, v_dconv2 L, v_dconv3 L, v_dconv4 L, v_dconv5 L,
         v_dconv6 L, v_dconv7 L, v_dconv8 L, v_dconv9 L] =
      map Some [(2, 2), (4, 4), (8, 8), (16, 16), (32, 32),
         (64, 64), (128, 128), (256, 256), (512, 512)]"
    by (simp add: spatial_def d)
  have c6: "spatial (image_dim_ordering w) batch_size (v_out L) = Some (512, 512)"
    by (simp add: spatial_def d)
  show ?thesis
    by (rule exI [of _ L], rule exI [of _ ?w'])
      (intro conjI r g_unet_of_locals [OF r] W c1 c2 c3 c4 c5 c6)
qed

theorem g_unet_spatial_sizes_witness:
  "\<exists>L w'.
      g_unet_locals True 3 1 8 2 False 1 ''unet''
        \<lparr>image_dim_ordering = ''tf'', stdout = [], built = []\<rparr> = (Inr L, w') \<and>
      g_unet True 3 1 8 2 False 1 ''unet''
        \<lparr>image_dim_ordering = ''tf'', stdout = [], built = []\<rparr> =
        (Inr \<lparr>inputs = v_i L, outputs = v_out L, name = ''unet''\<rparr>, w') \<and>
      wiring True 
        \<lparr>image_dim_ordering = ''tf'', stdout = [], built = []\<rparr>
        1 8 2 False 1 (unet_input ''tf'' 3)
        (deconv_shape ''tf'') (channel_axis ''tf'') L \<and>
      spatial ''tf'' 2 (v_i L) = Some (512, 512) \<and>
      map (spatial ''tf'' 2)
          [v_conv1 L, v_conv2 L, v_conv3 L, v_conv4 L, v_conv5 L,
           v_conv6 L, v_conv7 L, v_conv8 L, v_x_174 L] =
        map Some [(256, 256), (128, 128), (64, 64), (32, 32), (16, 16),
           (8, 8), (4, 4), (2, 2), (1, 1)] \<and>
      v_conv9 L = Tensor (BatchNorm True 2 1)
                    [Tensor (Convolution True (64) 2 1 ''valid'') [v_conv8 L]] \<and>
      v_x_174 L = Tensor (LeakyReLU (1/5)) [v_conv9 L] \<and>
      map (spatial ''tf'' 2)
          [v_dconv1 L, v_dconv2 L, v_dconv3 L, v_dconv4 L, v_dconv5 L,
           v_dconv6 L, v_dconv7 L, v_dconv8 L, v_dconv9 L] =
        map Some [(2, 2), (4, 4), (8, 8), (16, 16), (32, 32),
           (64, 64), (128, 128), (256, 256), (512, 512)] \<and>
      spatial ''tf'' 2 (v_out L) = Some (512, 512)"
  using g_unet_spatial_sizes
    [of "\<lparr>image_dim_ordering = ''tf'', stdout = [], built = []\<rparr>" 3 1 8 2 True False 1 "''unet''"]
  by simp


text \<open>
  C6. The channel counts of the outputs of the encoder stages are \<open>nf\<close> times 1, 2, 4, 8,
  8, 8, 8, 8 (and 8 again at the 1 by 1 bottleneck, the ninth stage); the decoder stages'
  own channel counts, before the concatenation, are the mirrored \<open>nf\<close> times 8, 8, 8, 8,
  8, 4, 2, 1 and then \<open>out_ch\<close>.
\<close>

theorem g_unet_channel_schedule:
  assumes "image_dim_ordering w = ''th'' \<or> image_dim_ordering w = ''tf''"
    and "0 < in_ch" and "0 < out_ch" and "0 < nf" and "0 < batch_size"
  shows "\<exists>L w'.
      g_unet_locals KERAS_2 in_ch out_ch nf batch_size is_binary num_padded_conv nm
        w = (Inr L, w') \<and>
      g_unet KERAS_2 in_ch out_ch nf batch_size is_binary num_padded_conv nm
        w =
        (Inr \<lparr>inputs = v_i L, outputs = v_out L, name = nm\<rparr>, w') \<and>
      wiring KERAS_2 w out_ch nf batch_size is_binary num_padded_conv (unet_input (image_dim_ordering w) in_ch)
        (deconv_shape (image_dim_ordering w)) (channel_axis (image_dim_ordering w)) L \<and>
      map (channels (image_dim_ordering w) batch_size)
          [v_conv1 L, v_conv2 L, v_conv3 L, v_conv4 L, v_conv5 L,
           v_conv6 L, v_conv7 L, v_conv8 L, v_x_174 L] =
        map Some [nf, nf * 2, nf * 4, nf * 8, nf * 8, nf * 8, nf * 8, nf * 8, nf * 8] \<and>
      map (channels (image_dim_ordering w) batch_size)
          [v_dconv1 L, v_dconv2 L, v_dconv3 L, v_dconv4 L, v_dconv5 L,
           v_dconv6 L, v_dconv7 L, v_dconv8 L, v_dconv9 L] =
        map Some [nf * 8, nf * 8, nf * 8, nf * 8, nf * 8, nf * 4, nf * 2, nf, out_ch]"
proof -
  let ?w' = "final_world KERAS_2 in_ch out_ch nf batch_size is_binary num_padded_conv w"
  obtain L where r: "g_unet_locals KERAS_2 in_ch out_ch nf batch_size is_binary num_padded_conv
        nm w = (Inr L, ?w')"
    and W: "wiring KERAS_2 w out_ch nf batch_size is_binary num_padded_conv
        (unet_input (image_dim_ordering w) in_ch) (deconv_shape (image_dim_ordering w))
        (channel_axis (image_dim_ordering w)) L"
    using assms(1) by (rule g_unet_locals_result)
  note d = unet_dims [OF W assms(1) refl assms(2-5)]
  note s = d [THEN dims_of_image_shape [OF assms(1)]]
  note F = wiring_facts [OF W]
  have c1: "map (channels (image_dim_ordering w) batch_size)
        [v_conv1 L, v_conv2 L, v_conv3 L, v_conv4 L, v_conv5 L,
         v_conv6 L, v_conv7 L, v_conv8 L, v_x_174 L] =
      map Some [nf, nf * 2, nf * 4, nf * 8, nf * 8, nf * 8, nf * 8, nf * 8, nf * 8]"
    by (simp add: channels_def d)
  have c2: "map (channels (image_dim_ordering w) batch_size)
        [v_dconv1 L, v_dconv2 L, v_dconv3 L, v_dconv4 L, v_dconv5 L,
         v_dconv6 L, v_dconv7 L, v_dconv8 L, v_dconv9 L] =
      map Some [nf * 8, nf * 8, nf * 8, nf * 8, nf * 8, nf * 4, nf * 2, nf, out_ch]"
    by (simp add: channels_def d)
  show ?thesis
    by (rule exI [of _ L], rule exI [of _ ?w'])
      (intro conjI r g_unet_of_locals [OF r] W c1 c2)
qed

theorem g_unet_channel_schedule_witness:
  "\<exists>L w'.
      g_unet_locals False 3 1 8 2 True 0 ''unet''
        \<lparr>image_dim_ordering = ''th'', stdout = [], built = []\<rparr> = (Inr L, w') \<and>
      g_unet False 3 1 8 2 True 0 ''unet''
        \<lparr>image_dim_ordering = ''th'', stdout = [], built = []\<rparr> =
        (Inr \<lparr>inputs = v_i L, outputs = v_out L, name = ''unet''\<rparr>, w') \<and>
      wiring False 
        \<lparr>image_dim_ordering = ''th'', stdout = [], built = []\<rparr>
        1 8 2 True 0 (unet_input ''th'' 3)
        (deconv_shape ''th'') (channel_axis ''th'') L \<and>
      map (channels ''th'' 2)
          [v_conv1 L, v_conv2 L, v_conv3 L, v_conv4 L, v_conv5 L,
           v_conv6 L, v_conv7 L, v_conv8 L, v_x_174 L] =
        map Some [8, 16, 32, 64, 64, 64, 64, 64, 64] \<and>
      map (channels ''th'' 2)
          [v_dconv1 L, v_dconv2 L, v_dconv3 L, v_dconv4 L, v_dconv5 L,
           v_dconv6 L, v_dconv7 L, v_dconv8 L, v_dconv9 L] =
        map Some [64, 64, 64, 64, 64, 32, 16, 8, 1]"
  using g_unet_channel_schedule
    [of "\<lparr>image_dim_ordering = ''th'', stdout = [], built = []\<rparr>" 3 1 8 2 False True 0 "''unet''"]
  by simp


text \<open>
  C4. For \<open>j\<close> from 1 to 8, the upsampled output \<^verbatim>\<open>dconv\<close>\<open>j\<close> of decoder stage \<open>j\<close> is
  concatenated, along the channel axis of the ordering, with the output of encoder stage
  \<open>9 - j\<close>, and the concatenated tensor has as many channels as the two together:
  \<open>nf * 8 + nf * 8\<close> for the first five stages, then \<open>nf * 4 + nf * 4\<close>, \<open>nf * 2 + nf * 2\<close>
  and \<open>nf + nf\<close>.
\<close>

theorem g_unet_skip_links:
  assumes "image_dim_ordering w = ''th'' \<or> image_dim_ordering w = ''tf''"
    and "0 < in_ch" and "0 < out_ch" and "0 < nf" and "0 < batch_size"
  shows "\<exists>L w'.
      g_unet_locals KERAS_2 in_ch out_ch nf batch_size is_binary num_padded_conv nm
        w = (Inr L, w') \<and>
      g_unet KERAS_2 in_ch out_ch nf batch_size is_binary num_padded_conv nm
        w =
        (Inr \<lparr>inputs = v_i L, outputs = v_out L, name = nm\<rparr>, w') \<and>
      wiring KERAS_2 w out_ch nf batch_size is_binary num_padded_conv (unet_input (image_dim_ordering w) in_ch)
        (deconv_shape (image_dim_ordering w)) (channel_axis (image_dim_ordering w)) L \<and>
      [v_x_183 L, v_x_192 L, v_x_201 L, v_x_209 L,
       v_x_217 L, v_x_225 L, v_x_233 L, v_x_241 L] =
        map2 (\<lambda>d e. Tensor (concat_layer KERAS_2 (channel_axis (image_dim_ordering w))) [d, e])
          [v_dconv1 L, v_dconv2 L, v_dconv3 L, v_dconv4 L,
           v_dconv5 L, v_dconv6 L, v_dconv7 L, v_dconv8 L]
          [v_conv8 L, v_conv7 L, v_conv6 L, v_conv5 L,
           v_conv4 L, v_conv3 L, v_conv2 L, v_conv1 L] \<and>
      map (channels (image_dim_ordering w) batch_size)
          [v_dconv1 L, v_dconv2 L, v_dconv3 L, v_dconv4 L,
           v_dconv5 L, v_dconv6 L, v_dconv7 L, v_dconv8 L] =
        map Some [nf * 8, nf * 8, nf * 8, nf * 8, nf * 8, nf * 4, nf * 2, nf] \<and>
      map (channels (image_dim_ordering w) batch_size)
          [v_conv8 L, v_conv7 L, v_conv6 L, v_conv5 L,
           v_conv4 L, v_conv3 L, v_conv2 L, v_conv1 L] =
        map Some [nf * 8, nf * 8, nf * 8, nf * 8, nf * 8, nf * 4, nf * 2, nf] \<and>
      map (channels (image_dim_ordering w) batch_size)
          [v_x_183 L, v_x_192 L, v_x_201 L, v_x_209 L,
           v_x_217 L, v_x_225 L, v_x_233 L, v_x_241 L] =
        map Some [nf * 8 + nf * 8, nf * 8 + nf * 8, nf * 8 + nf * 8, nf * 8 + nf * 8,
                  nf * 8 + nf * 8, nf * 4 + nf * 4, nf * 2 + nf * 2, nf + nf]"
proof -
  let ?w' = "final_world KERAS_2 in_ch out_ch nf batch_size is_binary num_padded_conv w"
  obtain L where r: "g_unet_locals KERAS_2 in_ch out_ch nf batch_size is_binary num_padded_conv
        nm w = (Inr L, ?w')"
    and W: "wiring KERAS_2 w out_ch nf batch_size is_binary num_padded_conv
        (unet_input (image_dim_ordering w) in_ch) (deconv_shape (image_dim_ordering w))
        (channel_axis (image_dim_ordering w)) L"
    using assms(1) by (rule g_unet_locals_result)
  note d = unet_dims [OF W assms(1) refl assms(2-5)]
  note s = d [THEN dims_of_image_shape [OF assms(1)]]
  note F = wiring_facts [OF W]
  have c1: "[v_x_183 L, v_x_192 L, v_x_201 L, v_x_209 L,
     v_x_217 L, v_x_225 L, v_x_233 L, v_x_241 L] =
      map2 (\<lambda>d e. Tensor (concat_layer KERAS_2 (channel_axis (image_dim_ordering w))) [d, e])
        [v_dconv1 L, v_dconv2 L, v_dconv3 L, v_dconv4 L,
         v_dconv5 L, v_dconv6 L, v_dconv7 L, v_dconv8 L]
        [v_conv8 L, v_conv7 L, v_conv6 L, v_conv5 L,
         v_conv4 L, v_conv3 L, v_conv2 L, v_conv1 L]"
    by (simp add: F(13) F(16) F(19) F(22) F(25) F(28) F(31) F(34))
  have c2: "map (channels (image_dim_ordering w) batch_size)
        [v_dconv1 L, v_dconv2 L, v_dconv3 L, v_dconv4 L,
         v_dconv5 L, v_dconv6 L, v_dconv7 L, v_dconv8 L] =
      map Some [nf * 8, nf * 8, nf * 8, nf * 8, nf * 8, nf * 4, nf * 2, nf]"
    by (simp add: channels_def d)
  have c3: "map (channels (image_dim_ordering w) batch_size)
        [v_conv8 L, v_conv7 L, v_conv6 L, v_conv5 L,
         v_conv4 L, v_conv3 L, v_conv2 L, v_conv1 L] =
      map Some [nf * 8, nf * 8, nf * 8, nf * 8, nf * 8, nf * 4, nf * 2, nf]"
    by (simp add: channels_def d)
  have c4: "map (channels (image_dim_ordering w) batch_size)
        [v_x_183 L, v_x_192 L, v_x_201 L, v_x_209 L,
         v_x_217 L, v_x_225 L, v_x_233 L, v_x_241 L] =
      map Some [nf * 8 + nf * 8, nf * 8 + nf * 8, nf * 8 + nf * 8, nf * 8 + nf * 8,
                nf * 8 + nf * 8, nf * 4 + nf * 4, nf * 2 + nf * 2, nf + nf]"
    by (simp add: channels_def d)
  show ?thesis
    by (rule exI [of _ L], rule exI [of _ ?w'])
      (intro conjI r g_unet_of_locals [OF r] W c1 c2 c3 c4)
qed

theorem g_unet_skip_links_witness:
  "\<exists>L w'.
      g_unet_locals True 3 1 8 2 False 0 ''unet''
        \<lparr>image_dim_ordering = ''th'', stdout = [], built = []\<rparr> = (Inr L, w') \<and>
      g_unet True 3 1 8 2 False 0 ''unet''
        \<lparr>image_dim_ordering = ''th'', stdout = [], built = []\<rparr> =
        (Inr \<lparr>inputs = v_i L, outputs = v_out L, name = ''unet''\<rparr>, w') \<and>
      wiring True 
        \<lparr>image_dim_ordering = ''th'', stdout = [], built = []\<rparr>
        1 8 2 False 0 (unet_input ''th'' 3)
        (deconv_shape ''th'') (channel_axis ''th'') L \<and>
      [v_x_183 L, v_x_192 L, v_x_201 L, v_x_209 L,
       v_x_217 L, v_x_225 L, v_x_233 L, v_x_241 L] =
        map2 (\<lambda>d e. Tensor (concat_layer True (channel_axis ''th'')) [d, e])
          [v_dconv1 L, v_dconv2 L, v_dconv3 L, v_dconv4 L,
           v_dconv5 L, v_dconv6 L, v_dconv7 L, v_dconv8 L]
          [v_conv8 L, v_conv7 L, v_conv6 L, v_conv5 L,
           v_conv4 L, v_conv3 L, v_conv2 L, v_conv1 L] \<and>
      map (channels ''th'' 2)
          [v_dconv1 L, v_dconv2 L, v_dconv3 L, v_dconv4 L,
           v_dconv5 L, v_dconv6 L, v_dconv7 L, v_dconv8 L] =
        map Some [64, 64, 64, 64, 64, 32, 16, 8] \<and>
      map (channels ''th'' 2)
          [v_conv8 L, v_conv7 L, v_conv6 L, v_conv5 L,
           v_conv4 L, v_conv3 L, v_conv2 L, v_conv1 L] =
        map Some [64, 64, 64, 64, 64, 32, 16, 8] \<and>
      map (channels ''th'' 2)
          [v_x_183 L, v_x_192 L, v_x_201 L, v_x_209 L,
           v_x_217 L, v_x_225 L, v_x_233 L, v_x_241 L] =
        map Some [128, 128, 128, 128,
                  128, 64, 32, 16]"
  using g_unet_skip_links
    [of "\<lparr>image_dim_ordering = ''th'', stdout = [], built = []\<rparr>" 3 1 8 2 True False 0 "''unet''"]
  by simp

subsection \<open>Dropout\<close>

lemma decoder_dropout_eq:
  assumes "image_dim_ordering w = ''th'' \<or> image_dim_ordering w = ''tf''"
  shows "decoder_dropout (g_unet_locals K2 in_ch out_ch nf bs isb npc nm w) =
           [True, True, True, False, False, False, False, False, False]"
proof -
  obtain L where r: "g_unet_locals K2 in_ch out_ch nf bs isb npc nm w =
        (Inr L, final_world K2 in_ch out_ch nf bs isb npc w)"
    and W: "wiring K2 w out_ch nf bs isb npc (unet_input (image_dim_ordering w) in_ch)
        (deconv_shape (image_dim_ordering w)) (channel_axis (image_dim_ordering w)) L"
    using assms by (rule g_unet_locals_result)
  note F = wiring_facts [OF W]
  show ?thesis
    unfolding r
    by (simp add: decoder_dropout_def decoder_upsampled_def dropout_after_norm_def layer_of_def
        inputs_of_def F(12) F(15) F(18) F(21) F(24) F(27) F(30) F(33) F(36))
qed

lemma dropout_layers_built:
  "length (filter is_Dropout (built (final_world K2 in_ch out_ch nf bs isb npc w))) =
     length (filter is_Dropout (built w)) + 3"
  by (simp add: final_world_def body_layers_def)

text \<open>
  C3, with the first three stages in place of the first two. Of the upsampled outputs \<^verbatim>\<open>dconv1\<close> to \<^verbatim>\<open>dconv9\<close> of the nine
  decoder stages, exactly the first three come out of a dropout layer applied to the
  normalisation; the later six do not, and the whole call constructs three dropout layers
  and no more.
\<close>

theorem g_unet_decoder_dropout:
  assumes "image_dim_ordering w = ''th'' \<or> image_dim_ordering w = ''tf''"
  shows "decoder_dropout
           (g_unet_locals KERAS_2 in_ch out_ch nf batch_size is_binary num_padded_conv nm w) =
           [True, True, True, False, False, False, False, False, False] \<and>
         (\<exists>L w'.
            g_unet_locals KERAS_2 in_ch out_ch nf batch_size is_binary num_padded_conv nm w =
              (Inr L, w') \<and>
            g_unet KERAS_2 in_ch out_ch nf batch_size is_binary num_padded_conv nm w =
              (Inr \<lparr>inputs = v_i L, outputs = v_out L, name = nm\<rparr>, w') \<and>
            wiring KERAS_2 w out_ch nf batch_size is_binary num_padded_conv
              (unet_input (image_dim_ordering w) in_ch) (deconv_shape (image_dim_ordering w))
              (channel_axis (image_dim_ordering w)) L \<and>
            length (filter is_Dropout (built w')) = length (filter is_Dropout (built w)) + 3)"
proof -
  let ?w' = "final_world KERAS_2 in_ch out_ch nf batch_size is_binary num_padded_conv w"
  obtain L where r: "g_unet_locals KERAS_2 in_ch out_ch nf batch_size is_binary num_padded_conv
        nm w = (Inr L, ?w')"
    and W: "wiring KERAS_2 w out_ch nf batch_size is_binary num_padded_conv
        (unet_input (image_dim_ordering w) in_ch) (deconv_shape (image_dim_ordering w))
        (channel_axis (image_dim_ordering w)) L"
    using assms by (rule g_unet_locals_result)
  have "\<exists>L w'.
      g_unet_locals KERAS_2 in_ch out_ch nf batch_size is_binary num_padded_conv nm w =
        (Inr L, w') \<and>
      g_unet KERAS_2 in_ch out_ch nf batch_size is_binary num_padded_conv nm w =
        (Inr \<lparr>inputs = v_i L, outputs = v_out L, name = nm\<rparr>, w') \<and>
      wiring KERAS_2 w out_ch nf batch_size is_binary num_padded_conv
        (unet_input (image_dim_ordering w) in_ch) (deconv_shape (image_dim_ordering w))
        (channel_axis (image_dim_ordering w)) L \<and>
      length (filter is_Dropout (built w')) = length (filter is_Dropout (built w)) + 3"
    by (rule exI [of _ L], rule exI [of _ ?w'])
      (intro conjI r g_unet_of_locals [OF r] W dropout_layers_built)
  with decoder_dropout_eq [OF assms] show ?thesis
    by (rule conjI)
qed

theorem g_unet_decoder_dropout_witness:
  "decoder_dropout
           (g_unet_locals True 3 1 64 1 False 0 ''unet''
              \<lparr>image_dim_ordering = ''th'', stdout = [], built = []\<rparr>) =
           [True, True, True, False, False, False, False, False, False] \<and>
         (\<exists>L w'.
            g_unet_locals True 3 1 64 1 False 0 ''unet''
              \<lparr>image_dim_ordering = ''th'', stdout = [], built = []\<rparr> = (Inr L, w') \<and>
            g_unet True 3 1 64 1 False 0 ''unet''
              \<lparr>image_dim_ordering = ''th'', stdout = [], built = []\<rparr> =
              (Inr \<lparr>inputs = v_i L, outputs = v_out L, name = ''unet''\<rparr>, w') \<and>
            wiring True \<lparr>image_dim_ordering = ''th'', stdout = [], built = []\<rparr> 1 64 1 False 0
              (unet_input ''th'' 3) (deconv_shape ''th'') (channel_axis ''th'') L \<and>
            length (filter is_Dropout (built w')) = 3)"
  using g_unet_decoder_dropout
    [of "\<lparr>image_dim_ordering = ''th'', stdout = [], built = []\<rparr>" True 3 1 64 1 False 0 "''unet''"]
  by simp

text \<open>
  Dropout in the first two decoder stages only does not hold: on a Theano-ordered call
  with the default arguments the third stage has dropout too.
\<close>

theorem g_unet_dropout_first_two_counterexample:
  "decoder_dropout
     (g_unet_locals True 3 1 64 1 False 0 ''unet''
        \<lparr>image_dim_ordering = ''th'', stdout = [], built = []\<rparr>) \<noteq>
   [True, True, False, False, False, False, False, False, False]"
  using decoder_dropout_eq
    [of "\<lparr>image_dim_ordering = ''th'', stdout = [], built = []\<rparr>" True 3 1 64 1 False 0 "''unet''"]
  by simp

subsection \<open>Refinement blocks\<close>

lemma is_padded_conv_wrappers [simp]:
  "\<not> is_padded_conv (Convolution K2 f k 2 bm)"
  "\<not> is_padded_conv (Convolution K2 f k s ''valid'')"
  "is_LeakyReLU (LeakyReLU a)"
  by (simp_all add: is_padded_conv_def Convolution_def is_LeakyReLU_def)

lemma stage_blocks_eq:
  assumes "image_dim_ordering w = ''th'' \<or> image_dim_ordering w = ''tf''"
  shows "stage_blocks (g_unet_locals K2 in_ch out_ch nf bs isb npc nm w) =
           [nat npc, nat npc, nat npc, nat npc, nat npc, nat npc, nat npc, nat npc, 0,
            nat npc, nat npc, nat npc, nat npc, nat npc, nat npc, nat npc, nat npc, 0]"
proof -
  obtain L where r: "g_unet_locals K2 in_ch out_ch nf bs isb npc nm w =
        (Inr L, final_world K2 in_ch out_ch nf bs isb npc w)"
    and W: "wiring K2 w out_ch nf bs isb npc (unet_input (image_dim_ordering w) in_ch)
        (deconv_shape (image_dim_ordering w)) (channel_axis (image_dim_ordering w)) L"
    using assms by (rule g_unet_locals_result)
  note F = wiring_facts [OF W]
  have enc: "map refinement_blocks
      [v_conv1 L, v_conv2 L, v_conv3 L, v_conv4 L, v_conv5 L, v_conv6 L, v_conv7 L, v_conv8 L] =
      [nat npc, nat npc, nat npc, nat npc, nat npc, nat npc, nat npc, nat npc]"
    by (simp add: F(2) F(3) F(4) F(5) F(6) F(7) F(8) F(9) refinement_blocks_blocks)
  have mid: "refinement_blocks (v_x_174 L) = 0"
    by (simp add: F(10) F(11))
  have dec: "map refinement_blocks
      [v_x_186 L, v_x_195 L, v_x_204 L, v_x_212 L, v_x_220 L, v_x_228 L, v_x_236 L, v_x_244 L] =
      [nat npc, nat npc, nat npc, nat npc, nat npc, nat npc, nat npc, nat npc]"
    by (simp add: F(13) F(14) F(16) F(17) F(19) F(20) F(22) F(23) F(25) F(26) F(28) F(29)
        F(31) F(32) F(34) F(35) refinement_blocks_blocks)
  have last: "refinement_blocks (v_dconv9 L) = 0"
    by (simp add: F(36) not_LeakyReLU_blocks)
  show ?thesis
    unfolding r using enc mid dec last
    by (simp add: stage_blocks_def stage_outputs_def)
qed

lemma built_length:
  "length (built (final_world K2 in_ch out_ch nf bs isb npc w)) =
     length (built w) + 65 + 48 * nat npc"
  by (simp add: final_world_def body_layers_def)

text \<open>
  C2, with eight stages of each kind in place of nine. For a count \<open>num_padded_conv\<close> that is not negative and \<open>k\<close> not
  negative, raising the count by \<open>k\<close> adds exactly \<open>k\<close> refinement blocks to each of the
  first eight encoder stages and to each of the first eight decoder stages, and none to
  the ninth stage of either, which has no refinement block at any count: 48 \<open>k\<close> layers more
  are constructed. The output shape of the model stays \<open>(batch_size, out_ch, 512, 512)\<close>.
\<close>

theorem g_unet_refinement_blocks:
  assumes "image_dim_ordering w = ''th'' \<or> image_dim_ordering w = ''tf''"
    and "0 < in_ch" and "0 < out_ch" and "0 < nf" and "0 < batch_size"
    and "0 \<le> num_padded_conv" and "0 \<le> k"
  shows "stage_blocks (g_unet_locals KERAS_2 in_ch out_ch nf batch_size is_binary
        (num_padded_conv + k) nm w) =
       map2 (+) (stage_blocks (g_unet_locals KERAS_2 in_ch out_ch nf batch_size is_binary
         num_padded_conv nm w))
         [nat k, nat k, nat k, nat k, nat k, nat k, nat k, nat k, 0,
          nat k, nat k, nat k, nat k, nat k, nat k, nat k, nat k, 0] \<and>
     stage_blocks (g_unet_locals KERAS_2 in_ch out_ch nf batch_size is_binary num_padded_conv nm
        w) =
       [nat num_padded_conv, nat num_padded_conv, nat num_padded_conv, nat num_padded_conv,
        nat num_padded_conv, nat num_padded_conv, nat num_padded_conv, nat num_padded_conv, 0,
        nat num_padded_conv, nat num_padded_conv, nat num_padded_conv, nat num_padded_conv,
        nat num_padded_conv, nat num_padded_conv, nat num_padded_conv, nat num_padded_conv, 0] \<and>
     (\<exists>L L' w1 w2.
        g_unet_locals KERAS_2 in_ch out_ch nf batch_size is_binary num_padded_conv nm
        w = (Inr L, w1) \<and>
        g_unet_locals KERAS_2 in_ch out_ch nf batch_size is_binary (num_padded_conv + k) nm
        w = (Inr L', w2) \<and>
        g_unet KERAS_2 in_ch out_ch nf batch_size is_binary num_padded_conv nm
        w =
          (Inr \<lparr>inputs = v_i L, outputs = v_out L, name = nm\<rparr>, w1) \<and>
        g_unet KERAS_2 in_ch out_ch nf batch_size is_binary (num_padded_conv + k) nm
        w =
          (Inr \<lparr>inputs = v_i L', outputs = v_out L', name = nm\<rparr>, w2) \<and>
        wiring KERAS_2 w out_ch nf batch_size is_binary num_padded_conv
          (unet_input (image_dim_ordering w) in_ch) (deconv_shape (image_dim_ordering w))
          (channel_axis (image_dim_ordering w)) L \<and>
        wiring KERAS_2 w out_ch nf batch_size is_binary (num_padded_conv + k)
          (unet_input (image_dim_ordering w) in_ch) (deconv_shape (image_dim_ordering w))
          (channel_axis (image_dim_ordering w)) L' \<and>
        shape_of (image_dim_ordering w) batch_size (v_out L') =
          shape_of (image_dim_ordering w) batch_size (v_out L) \<and>
        shape_of (image_dim_ordering w) batch_size (v_out L) =
          Some (image_shape (image_dim_ordering w) (batch_size, out_ch, 512, 512)) \<and>
        length (built w2) = length (built w1) + 48 * nat k)"
proof -
  note sb = stage_blocks_eq [OF assms(1)]
  have n: "nat (num_padded_conv + k) = nat num_padded_conv + nat k"
    using assms(6,7) by (simp add: nat_add_distrib)
  let ?w1 = "final_world KERAS_2 in_ch out_ch nf batch_size is_binary num_padded_conv w"
  let ?w2 = "final_world KERAS_2 in_ch out_ch nf batch_size is_binary (num_padded_conv + k) w"
  obtain L where r: "g_unet_locals KERAS_2 in_ch out_ch nf batch_size is_binary num_padded_conv
        nm w = (Inr L, ?w1)"
    and W: "wiring KERAS_2 w out_ch nf batch_size is_binary num_padded_conv
        (unet_input (image_dim_ordering w) in_ch) (deconv_shape (image_dim_ordering w))
        (channel_axis (image_dim_ordering w)) L"
    using assms(1) by (rule g_unet_locals_result)
  obtain L' where r': "g_unet_locals KERAS_2 in_ch out_ch nf batch_size is_binary
        (num_padded_conv + k) nm w = (Inr L', ?w2)"
    and W': "wiring KERAS_2 w out_ch nf batch_size is_binary (num_padded_conv + k)
        (unet_input (image_dim_ordering w) in_ch) (deconv_shape (image_dim_ordering w))
        (channel_axis (image_dim_ordering w)) L'"
    using assms(1) by (rule g_unet_locals_result)
  note d = unet_dims [OF W assms(1) refl assms(2-5)]
  note d' = unet_dims [OF W' assms(1) refl assms(2-5)]
  have s: "shape_of (image_dim_ordering w) batch_size (v_out L) =
      Some (image_shape (image_dim_ordering w) (batch_size, out_ch, 512, 512))"
    using assms(1) d(37) by (rule dims_of_image_shape)
  have s': "shape_of (image_dim_ordering w) batch_size (v_out L') =
      Some (image_shape (image_dim_ordering w) (batch_size, out_ch, 512, 512))"
    using assms(1) d'(37) by (rule dims_of_image_shape)
  have same: "shape_of (image_dim_ordering w) batch_size (v_out L') =
      shape_of (image_dim_ordering w) batch_size (v_out L)"
    by (simp add: s s')
  have len: "length (built ?w2) = length (built ?w1) + 48 * nat k"
    by (simp add: built_length n)
  have c1: "stage_blocks (g_unet_locals KERAS_2 in_ch out_ch nf batch_size is_binary
        (num_padded_conv + k) nm w) =
      map2 (+) (stage_blocks (g_unet_locals KERAS_2 in_ch out_ch nf batch_size is_binary
        num_padded_conv nm w))
        [nat k, nat k, nat k, nat k, nat k, nat k, nat k, nat k, 0,
         nat k, nat k, nat k, nat k, nat k, nat k, nat k, nat k, 0]"
    by (simp add: sb n)
  have c3: "\<exists>L L' w1 w2.
      g_unet_locals KERAS_2 in_ch out_ch nf batch_size is_binary num_padded_conv nm w =
        (Inr L, w1) \<and>
      g_unet_locals KERAS_2 in_ch out_ch nf batch_size is_binary (num_padded_conv + k) nm w =
        (Inr L', w2) \<and>
      g_unet KERAS_2 in_ch out_ch nf batch_size is_binary num_padded_conv nm w =
        (Inr \<lparr>inputs = v_i L, outputs = v_out L, name = nm\<rparr>, w1) \<and>
      g_unet KERAS_2 in_ch out_ch nf batch_size is_binary (num_padded_conv + k) nm w =
        (Inr \<lparr>inputs = v_i L', outputs = v_out L', name = nm\<rparr>, w2) \<and>
      wiring KERAS_2 w out_ch nf batch_size is_binary num_padded_conv
        (unet_input (image_dim_ordering w) in_ch) (deconv_shape (image_dim_ordering w))
        (channel_axis (image_dim_ordering w)) L \<and>
      wiring KERAS_2 w out_ch nf batch_size is_binary (num_padded_conv + k)
        (unet_input (image_dim_ordering w) in_ch) (deconv_shape (image_dim_ordering w))
        (channel_axis (image_dim_ordering w)) L' \<and>
      shape_of (image_dim_ordering w) batch_size (v_out L') =
        shape_of (image_dim_ordering w) batch_size (v_out L) \<and>
      shape_of (image_dim_ordering w) batch_size (v_out L) =
        Some (image_shape (image_dim_ordering w) (batch_size, out_ch, 512, 512)) \<and>
      length (built w2) = length (built w1) + 48 * nat k"
    by (rule exI [of _ L], rule exI [of _ L'], rule exI [of _ ?w1], rule exI [of _ ?w2])
      (intro conjI r r' g_unet_of_locals [OF r] g_unet_of_locals [OF r'] W W' same s len)
  show ?thesis
    by (intro conjI c1 sb c3)
qed

theorem g_unet_refinement_blocks_witness:
  "stage_blocks (g_unet_locals True 3 1 8 2 False (1 + 2) ''unet''
        \<lparr>image_dim_ordering = ''th'', stdout = [], built = []\<rparr>) =
       map2 (+) (stage_blocks (g_unet_locals True 3 1 8 2 False 1 ''unet''
        \<lparr>image_dim_ordering = ''th'', stdout = [], built = []\<rparr>))
         [2, 2, 2, 2, 2, 2, 2, 2, 0,
          2, 2, 2, 2, 2, 2, 2, 2, 0] \<and>
     stage_blocks (g_unet_locals True 3 1 8 2 False 1 ''unet''
        \<lparr>image_dim_ordering = ''th'', stdout = [], built = []\<rparr>) =
       [1, 1, 1, 1, 1, 1, 1, 1, 0,
        1, 1, 1, 1, 1, 1, 1, 1, 0] \<and>
     (\<exists>L L' w1 w2.
        g_unet_locals True 3 1 8 2 False 1 ''unet''
        \<lparr>image_dim_ordering = ''th'', stdout = [], built = []\<rparr> = (Inr L, w1) \<and>
        g_unet_locals True 3 1 8 2 False (1 + 2) ''unet''
        \<lparr>image_dim_ordering = ''th'', stdout = [], built = []\<rparr> = (Inr L', w2) \<and>
        g_unet True 3 1 8 2 False 1 ''unet''
        \<lparr>image_dim_ordering = ''th'', stdout = [], built = []\<rparr> =
          (Inr \<lparr>inputs = v_i L, outputs = v_out L, name = ''unet''\<rparr>, w1) \<and>
        g_unet True 3 1 8 2 False (1 + 2) ''unet''
        \<lparr>image_dim_ordering = ''th'', stdout = [], built = []\<rparr> =
          (Inr \<lparr>inputs = v_i L', outputs = v_out L', name = ''unet''\<rparr>, w2) \<and>
        wiring True \<lparr>image_dim_ordering = ''th'', stdout = [], built = []\<rparr> 1 8 2 False 1
          (unet_input ''th'' 3) (deconv_shape ''th'') (channel_axis ''th'') L \<and>
        wiring True \<lparr>image_dim_ordering = ''th'', stdout = [], built = []\<rparr> 1 8 2 False (1 + 2)
          (unet_input ''th'' 3) (deconv_shape ''th'') (channel_axis ''th'') L' \<and>
        shape_of ''th'' 2 (v_out L') = shape_of ''th'' 2 (v_out L) \<and>
        shape_of ''th'' 2 (v_out L) = Some (image_shape ''th'' (2, 1, 512, 512)) \<and>
        length (built w2) = length (built w1) + 48 * 2)"
  using g_unet_refinement_blocks
    [of "\<lparr>image_dim_ordering = ''th'', stdout = [], built = []\<rparr>" 3 1 8 2 1 2 True False "''unet''"]
  by simp

text \<open>
  One more block in every one of the nine encoder and nine decoder stages does not hold
  going from no refinement block to one: the ninth encoder stage and the ninth decoder
  stage still have none.
\<close>

theorem g_unet_blocks_every_stage_counterexample:
  "stage_blocks (g_unet_locals True 3 1 64 1 False 1 ''unet''
        \<lparr>image_dim_ordering = ''th'', stdout = [], built = []\<rparr>) \<noteq>
   map Suc (stage_blocks (g_unet_locals True 3 1 64 1 False 0 ''unet''
        \<lparr>image_dim_ordering = ''th'', stdout = [], built = []\<rparr>))"
  using stage_blocks_eq
    [of "\<lparr>image_dim_ordering = ''th'', stdout = [], built = []\<rparr>" True 3 1 64 1 False 0 "''unet''"]
    stage_blocks_eq
    [of "\<lparr>image_dim_ordering = ''th'', stdout = [], built = []\<rparr>" True 3 1 64 1 False 1 "''unet''"]
  by simp

subsection \<open>The final activation\<close>

lemma sigmoid_range: "0 \<le> 1 / (1 + exp (- x)) \<and> 1 / (1 + exp (- x)) \<le> (1::real)"
proof -
  have "0 < exp (- x)" by simp
  then have "1 \<le> 1 + exp (- x)" by simp
  then show ?thesis by (simp add: divide_le_eq add_pos_pos)
qed

lemma tanh_range: "- 1 \<le> tanh x \<and> tanh x \<le> (1::real)"
  using tanh_real_gt_neg1 [of x] tanh_real_lt_1 [of x] by simp

lemma activation_ranges:
  "\<exists>s t. activation ''sigmoid'' = Some s \<and> activation ''tanh'' = Some t \<and>
      (\<forall>x. 0 \<le> s x \<and> s x \<le> 1) \<and> (\<forall>x. - 1 \<le> t x \<and> t x \<le> 1)"
  using sigmoid_range tanh_range by (simp add: activation_def)

lemma final_world_is_binary:
  "last (built (final_world K2 in_ch out_ch nf bs isb npc w)) =
     Activation (if isb then ''sigmoid'' else ''tanh'')"
  "butlast (built (final_world K2 in_ch out_ch nf bs True npc w)) =
     butlast (built (final_world K2 in_ch out_ch nf bs False npc w))"
  "stdout (final_world K2 in_ch out_ch nf bs isb npc w) =
     stdout w @ [banner (image_dim_ordering w)]"
  "image_dim_ordering (final_world K2 in_ch out_ch nf bs isb npc w) = image_dim_ordering w"
  by (simp_all add: final_world_def body_layers_def butlast_append)

text \<open>
  C8. The last layer of the graph is \<^verbatim>\<open>Activation('sigmoid')\<close> when \<open>is_binary\<close> holds and
  \<^verbatim>\<open>Activation('tanh')\<close> when it does not, applied to the same tensor \<^verbatim>\<open>dconv9\<close>: the two calls
  agree on every local variable but \<^verbatim>\<open>act\<close> and \<^verbatim>\<open>out\<close>, on what they print and, up to that
  last layer, on the layers they construct. On the reals the sigmoid takes its values in
  \<open>[0, 1]\<close> and the hyperbolic tangent in \<open>[-1, 1]\<close>.
\<close>

theorem g_unet_final_activation:
  assumes "image_dim_ordering w = ''th'' \<or> image_dim_ordering w = ''tf''"
  shows "(\<exists>LT LF wT wF.
        g_unet_locals KERAS_2 in_ch out_ch nf batch_size True num_padded_conv nm
          w = (Inr LT, wT) \<and>
        g_unet_locals KERAS_2 in_ch out_ch nf batch_size False num_padded_conv nm
          w = (Inr LF, wF) \<and>
        g_unet KERAS_2 in_ch out_ch nf batch_size True num_padded_conv nm
          w =
          (Inr \<lparr>inputs = v_i LT, outputs = v_out LT, name = nm\<rparr>, wT) \<and>
        g_unet KERAS_2 in_ch out_ch nf batch_size False num_padded_conv nm
          w =
          (Inr \<lparr>inputs = v_i LF, outputs = v_out LF, name = nm\<rparr>, wF) \<and>
        v_out LT = Tensor (Activation ''sigmoid'') [v_dconv9 LT] \<and>
        v_out LF = Tensor (Activation ''tanh'') [v_dconv9 LT] \<and>
        LF = LT\<lparr>v_act := ''tanh'', v_out := Tensor (Activation ''tanh'') [v_dconv9 LT]\<rparr> \<and>
        last (built wT) = Activation ''sigmoid'' \<and>
        last (built wF) = Activation ''tanh'' \<and>
        butlast (built wT) = butlast (built wF) \<and>
        stdout wT = stdout wF \<and>
        image_dim_ordering wT = image_dim_ordering wF) \<and>
     (\<exists>s t. activation ''sigmoid'' = Some s \<and> activation ''tanh'' = Some t \<and>
        (\<forall>x. 0 \<le> s x \<and> s x \<le> 1) \<and> (\<forall>x. - 1 \<le> t x \<and> t x \<le> 1))"
proof -
  let ?wT = "final_world KERAS_2 in_ch out_ch nf batch_size True num_padded_conv w"
  let ?wF = "final_world KERAS_2 in_ch out_ch nf batch_size False num_padded_conv w"
  obtain LT where rT: "g_unet_locals KERAS_2 in_ch out_ch nf batch_size True num_padded_conv
        nm w = (Inr LT, ?wT)"
    and WT: "wiring KERAS_2 w out_ch nf batch_size True num_padded_conv
        (unet_input (image_dim_ordering w) in_ch) (deconv_shape (image_dim_ordering w))
        (channel_axis (image_dim_ordering w)) LT"
    using assms by (rule g_unet_locals_result)
  obtain LF where rF: "g_unet_locals KERAS_2 in_ch out_ch nf batch_size False num_padded_conv
        nm w = (Inr LF, ?wF)"
    and WF: "wiring KERAS_2 w out_ch nf batch_size False num_padded_conv
        (unet_input (image_dim_ordering w) in_ch) (deconv_shape (image_dim_ordering w))
        (channel_axis (image_dim_ordering w)) LF"
    using assms by (rule g_unet_locals_result)
  note FT = wiring_facts [OF WT]
  note FF = wiring_facts [OF WF]
  have e_i: "v_i LF = v_i LT"
    by (simp add: FT(1) FF(1) )
  have e_conv1: "v_conv1 LF = v_conv1 LT"
    by (simp add: FT(2) FF(2) e_i)
  have e_conv2: "v_conv2 LF = v_conv2 LT"
    by (simp add: FT(3) FF(3) e_i e_conv1)
  have e_conv3: "v_conv3 LF = v_conv3 LT"
    by (simp add: FT(4) FF(4) e_i e_conv1 e_conv2)
  have e_conv4: "v_conv4 LF = v_conv4 LT"
    by (simp add: FT(5) FF(5) e_i e_conv1 e_conv2 e_conv3)
  have e_conv5: "v_conv5 LF = v_conv5 LT"
    by (simp add: FT(6) FF(6) e_i e_conv1 e_conv2 e_conv3 e_conv4)
  have e_conv6: "v_conv6 LF = v_conv6 LT"
    by (simp add: FT(7) FF(7) e_i e_conv1 e_conv2 e_conv3 e_conv4 e_conv5)
  have e_conv7: "v_conv7 LF = v_conv7 LT"
    by (simp add: FT(8) FF(8) e_i e_conv1 e_conv2 e_conv3 e_conv4 e_conv5 e_conv6)
  have e_conv8: "v_conv8 LF = v_conv8 LT"
    by (simp add: FT(9) FF(9) e_i e_conv1 e_conv2 e_conv3 e_conv4 e_conv5 e_conv6 e_conv7)
  have e_conv9: "v_conv9 LF = v_conv9 LT"
    by (simp add: FT(10) FF(10) e_i e_conv1 e_conv2 e_conv3 e_conv4 e_conv5 e_conv6 e_conv7 e_conv8)
  have e_x_174: "v_x_174 LF = v_x_174 LT"
    by (simp add: FT(11) FF(11) e_i e_conv1 e_conv2 e_conv3 e_conv4 e_conv5 e_conv6 e_conv7 e_conv8 e_conv9)
  have e_dconv1: "v_dconv1 LF = v_dconv1 LT"
    by (simp add: FT(12) FF(12) e_i e_conv1 e_conv2 e_conv3 e_conv4 e_conv5 e_conv6 e_conv7 e_conv8 e_conv9 e_x_174)
  have e_x_183: "v_x_183 LF = v_x_183 LT"
    by (simp add: FT(13) FF(13) e_i e_conv1 e_conv2 e_conv3 e_conv4 e_conv5 e_conv6 e_conv7 e_conv8 e_conv9 e_x_174 e_dconv1)
  have e_x_186: "v_x_186 LF = v_x_186 LT"
    by (simp add: FT(14) FF(14) e_i e_conv1 e_conv2 e_conv3 e_conv4 e_conv5 e_conv6 e_conv7 e_conv8 e_conv9 e_x_174 e_dconv1 e_x_183)
  have e_dconv2: "v_dconv2 LF = v_dconv2 LT"
    by (simp add: FT(15) FF(15) e_i e_conv1 e_conv2 e_conv3 e_conv4 e_conv5 e_conv6 e_conv7 e_conv8 e_conv9 e_x_174 e_dconv1 e_x_183 e_x_186)
  have e_x_192: "v_x_192 LF = v_x_192 LT"
    by (simp add: FT(16) FF(16) e_i e_conv1 e_conv2 e_conv3 e_conv4 e_conv5 e_conv6 e_conv7 e_conv8 e_conv9 e_x_174 e_dconv1 e_x_183 e_x_186 e_dconv2)
  have e_x_195: "v_x_195 LF = v_x_195 LT"
    by (simp add: FT(17) FF(17) e_i e_conv1 e_conv2 e_conv3 e_conv4 e_conv5 e_conv6 e_conv7 e_conv8 e_conv9 e_x_174 e_dconv1 e_x_183 e_x_186 e_dconv2 e_x_192)
  have e_dconv3: "v_dconv3 LF = v_dconv3 LT"
    by (simp add: FT(18) FF(18) e_i e_conv1 e_conv2 e_conv3 e_conv4 e_conv5 e_conv6 e_conv7 e_conv8 e_conv9 e_x_174 e_dconv1 e_x_183 e_x_186 e_dconv2 e_x_192 e_x_195)
  have e_x_201: "v_x_201 LF = v_x_201 LT"
    by (simp add: FT(19) FF(19) e_i e_conv1 e_conv2 e_conv3 e_conv4 e_conv5 e_conv6 e_conv7 e_conv8 e_conv9 e_x_174 e_dconv1 e_x_183 e_x_186 e_dconv2 e_x_192 e_x_195 e_dconv3)
  have e_x_204: "v_x_204 LF = v_x_204 LT"
    by (simp add: FT(20) FF(20) e_i e_conv1 e_conv2 e_conv3 e_conv4 e_conv5 e_conv6 e_conv7 e_conv8 e_conv9 e_x_174 e_dconv1 e_x_183 e_x_186 e_dconv2 e_x_192 e_x_195 e_dconv3 e_x_201)
  have e_dconv4: "v_dconv4 LF = v_dconv4 LT"
    by (simp add: FT(21) FF(21) e_i e_conv1 e_conv2 e_conv3 e_conv4 e_conv5 e_conv6 e_conv7 e_conv8 e_conv9 e_x_174 e_dconv1 e_x_183 e_x_186 e_dconv2 e_x_192 e_x_195 e_dconv3 e_x_201 e_x_204)
  have e_x_209: "v_x_209 LF = v_x_209 LT"
    by (simp add: FT(22) FF(22) e_i e_conv1 e_conv2 e_conv3 e_conv4 e_conv5 e_conv6 e_conv7 e_conv8 e_conv9 e_x_174 e_dconv1 e_x_183 e_x_186 e_dconv2 e_x_192 e_x_195 e_dconv3 e_x_201 e_x_204 e_dconv4)
  have e_x_212: "v_x_212 LF = v_x_212 LT"
    by (simp add: FT(23) FF(23) e_i e_conv1 e_conv2 e_conv3 e_conv4 e_conv5 e_conv6 e_conv7 e_conv8 e_conv9 e_x_174 e_dconv1 e_x_183 e_x_186 e_dconv2 e_x_192 e_x_195 e_dconv3 e_x_201 e_x_204 e_dconv4 e_x_209)
  have e_dconv5: "v_dconv5 LF = v_dconv5 LT"
    by (simp add: FT(24) FF(24) e_i e_conv1 e_conv2 e_conv3 e_conv4 e_conv5 e_conv6 e_conv7 e_conv8 e_conv9 e_x_174 e_dconv1 e_x_183 e_x_186 e_dconv2 e_x_192 e_x_195 e_dconv3 e_x_201 e_x_204 e_dconv4 e_x_209 e_x_212)
  have e_x_217: "v_x_217 LF = v_x_217 LT"
    by (simp add: FT(25) FF(25) e_i e_conv1 e_conv2 e_conv3 e_conv4 e_conv5 e_conv6 e_conv7 e_conv8 e_conv9 e_x_174 e_dconv1 e_x_183 e_x_186 e_dconv2 e_x_192 e_x_195 e_dconv3 e_x_201 e_x_204 e_dconv4 e_x_209 e_x_212 e_dconv5)
  have e_x_220: "v_x_220 LF = v_x_220 LT"
    by (simp add: FT(26) FF(26) e_i e_conv1 e_conv2 e_conv3 e_conv4 e_conv5 e_conv6 e_conv7 e_conv8 e_conv9 e_x_174 e_dconv1 e_x_183 e_x_186 e_dconv2 e_x_192 e_x_195 e_dconv3 e_x_201 e_x_204 e_dconv4 e_x_209 e_x_212 e_dconv5 e_x_217)
  have e_dconv6: "v_dconv6 LF = v_dconv6 LT"
    by (simp add: FT(27) FF(27) e_i e_conv1 e_conv2 e_conv3 e_conv4 e_conv5 e_conv6 e_conv7 e_conv8 e_conv9 e_x_174 e_dconv1 e_x_183 e_x_186 e_dconv2 e_x_192 e_x_195 e_dconv3 e_x_201 e_x_204 e_dconv4 e_x_209 e_x_212 e_dconv5 e_x_217 e_x_220)
  have e_x_225: "v_x_225 LF = v_x_225 LT"
    by (simp add: FT(28) FF(28) e_i e_conv1 e_conv2 e_conv3 e_conv4 e_conv5 e_conv6 e_conv7 e_conv8 e_conv9 e_x_174 e_dconv1 e_x_183 e_x_186 e_dconv2 e_x_192 e_x_195 e_dconv3 e_x_201 e_x_204 e_dconv4 e_x_209 e_x_212 e_dconv5 e_x_217 e_x_220 e_dconv6)
  have e_x_228: "v_x_228 LF = v_x_228 LT"
    by (simp add: FT(29) FF(29) e_i e_conv1 e_conv2 e_conv3 e_conv4 e_conv5 e_conv6 e_conv7 e_conv8 e_conv9 e_x_174 e_dconv1 e_x_183 e_x_186 e_dconv2 e_x_192 e_x_195 e_dconv3 e_x_201 e_x_204 e_dconv4 e_x_209 e_x_212 e_dconv5 e_x_217 e_x_220 e_dconv6 e_x_225)
  have e_dconv7: "v_dconv7 LF = v_dconv7 LT"
    by (simp add: FT(30) FF(30) e_i e_conv1 e_conv2 e_conv3 e_conv4 e_conv5 e_conv6 e_conv7 e_conv8 e_conv9 e_x_174 e_dconv1 e_x_183 e_x_186 e_dconv2 e_x_192 e_x_195 e_dconv3 e_x_201 e_x_204 e_dconv4 e_x_209 e_x_212 e_dconv5 e_x_217 e_x_220 e_dconv6 e_x_225 e_x_228)
  have e_x_233: "v_x_233 LF = v_x_233 LT"
    by (simp add: FT(31) FF(31) e_i e_conv1 e_conv2 e_conv3 e_conv4 e_conv5 e_conv6 e_conv7 e_conv8 e_conv9 e_x_174 e_dconv1 e_x_183 e_x_186 e_dconv2 e_x_192 e_x_195 e_dconv3 e_x_201 e_x_204 e_dconv4 e_x_209 e_x_212 e_dconv5 e_x_217 e_x_220 e_dconv6 e_x_225 e_x_228 e_dconv7)
  have e_x_236: "v_x_236 LF = v_x_236 LT"
    by (simp add: FT(32) FF(32) e_i e_conv1 e_conv2 e_conv3 e_conv4 e_conv5 e_conv6 e_conv7 e_conv8 e_conv9 e_x_174 e_dconv1 e_x_183 e_x_186 e_dconv2 e_x_192 e_x_195 e_dconv3 e_x_201 e_x_204 e_dconv4 e_x_209 e_x_212 e_dconv5 e_x_217 e_x_220 e_dconv6 e_x_225 e_x_228 e_dconv7 e_x_233)
  have e_dconv8: "v_dconv8 LF = v_dconv8 LT"
    by (simp add: FT(33) FF(33) e_i e_conv1 e_conv2 e_conv3 e_conv4 e_conv5 e_conv6 e_conv7 e_conv8 e_conv9 e_x_174 e_dconv1 e_x_183 e_x_186 e_dconv2 e_x_192 e_x_195 e_dconv3 e_x_201 e_x_204 e_dconv4 e_x_209 e_x_212 e_dconv5 e_x_217 e_x_220 e_dconv6 e_x_225 e_x_228 e_dconv7 e_x_233 e_x_236)
  have e_x_241: "v_x_241 LF = v_x_241 LT"
    by (simp add: FT(34) FF(34) e_i e_conv1 e_conv2 e_conv3 e_conv4 e_conv5 e_conv6 e_conv7 e_conv8 e_conv9 e_x_174 e_dconv1 e_x_183 e_x_186 e_dconv2 e_x_192 e_x_195 e_dconv3 e_x_201 e_x_204 e_dconv4 e_x_209 e_x_212 e_dconv5 e_x_217 e_x_220 e_dconv6 e_x_225 e_x_228 e_dconv7 e_x_233 e_x_236 e_dconv8)
  have e_x_244: "v_x_244 LF = v_x_244 LT"
    by (simp add: FT(35) FF(35) e_i e_conv1 e_conv2 e_conv3 e_conv4 e_conv5 e_conv6 e_conv7 e_conv8 e_conv9 e_x_174 e_dconv1 e_x_183 e_x_186 e_dconv2 e_x_192 e_x_195 e_dconv3 e_x_201 e_x_204 e_dconv4 e_x_209 e_x_212 e_dconv5 e_x_217 e_x_220 e_dconv6 e_x_225 e_x_228 e_dconv7 e_x_233 e_x_236 e_dconv8 e_x_241)
  have e_dconv9: "v_dconv9 LF = v_dconv9 LT"
    by (simp add: FT(36) FF(36) e_i e_conv1 e_conv2 e_conv3 e_conv4 e_conv5 e_conv6 e_conv7 e_conv8 e_conv9 e_x_174 e_dconv1 e_x_183 e_x_186 e_dconv2 e_x_192 e_x_195 e_dconv3 e_x_201 e_x_204 e_dconv4 e_x_209 e_x_212 e_dconv5 e_x_217 e_x_220 e_dconv6 e_x_225 e_x_228 e_dconv7 e_x_233 e_x_236 e_dconv8 e_x_241 e_x_244)
  have oT: "v_out LT = Tensor (Activation ''sigmoid'') [v_dconv9 LT]"
    by (simp add: FT(37) FT(38))
  have oF: "v_out LF = Tensor (Activation ''tanh'') [v_dconv9 LT]"
    by (simp add: FF(37) FF(38) e_dconv9)
  have aF: "v_act LF = ''tanh''"
    by (simp add: FF(37))
  have eq: "LF = LT\<lparr>v_act := ''tanh'', v_out := Tensor (Activation ''tanh'') [v_dconv9 LT]\<rparr>"
    by (rule locals.equality) (simp_all add: e_i e_conv1 e_conv2 e_conv3 e_conv4 e_conv5 e_conv6 e_conv7 e_conv8 e_conv9 e_x_174 e_dconv1 e_x_183 e_x_186 e_dconv2 e_x_192 e_x_195 e_dconv3 e_x_201 e_x_204 e_dconv4 e_x_209 e_x_212 e_dconv5 e_x_217 e_x_220 e_dconv6 e_x_225 e_x_228 e_dconv7 e_x_233 e_x_236 e_dconv8 e_x_241 e_x_244 e_dconv9 oF aF)
  have lT: "last (built ?wT) = Activation ''sigmoid''"
    and lF: "last (built ?wF) = Activation ''tanh''"
    by (simp_all add: final_world_is_binary(1))
  have so: "stdout ?wT = stdout ?wF"
    and io: "image_dim_ordering ?wT = image_dim_ordering ?wF"
    by (simp_all add: final_world_is_binary(3,4))
  have "\<exists>LT LF wT wF.
      g_unet_locals KERAS_2 in_ch out_ch nf batch_size True num_padded_conv nm w =
        (Inr LT, wT) \<and>
      g_unet_locals KERAS_2 in_ch out_ch nf batch_size False num_padded_conv nm w =
        (Inr LF, wF) \<and>
      g_unet KERAS_2 in_ch out_ch nf batch_size True num_padded_conv nm w =
        (Inr \<lparr>inputs = v_i LT, outputs = v_out LT, name = nm\<rparr>, wT) \<and>
      g_unet KERAS_2 in_ch out_ch nf batch_size False num_padded_conv nm w =
        (Inr \<lparr>inputs = v_i LF, outputs = v_out LF, name = nm\<rparr>, wF) \<and>
      v_out LT = Tensor (Activation ''sigmoid'') [v_dconv9 LT] \<and>
      v_out LF = Tensor (Activation ''tanh'') [v_dconv9 LT] \<and>
      LF = LT\<lparr>v_act := ''tanh'', v_out := Tensor (Activation ''tanh'') [v_dconv9 LT]\<rparr> \<and>
      last (built wT) = Activation ''sigmoid'' \<and>
      last (built wF) = Activation ''tanh'' \<and>
      butlast (built wT) = butlast (built wF) \<and>
      stdout wT = stdout wF \<and>
      image_dim_ordering wT = image_dim_ordering wF"
    by (rule exI [of _ LT], rule exI [of _ LF], rule exI [of _ ?wT], rule exI [of _ ?wF])
      (intro conjI rT rF g_unet_of_locals [OF rT] g_unet_of_locals [OF rF] oT oF eq lT lF
        final_world_is_binary(2) so io)
  then show ?thesis
    using activation_ranges by (rule conjI)
qed

theorem g_unet_final_activation_witness:
  "(\<exists>LT LF wT wF.
        g_unet_locals True 3 1 64 1 True 0 ''unet''
          \<lparr>image_dim_ordering = ''th'', stdout = [], built = []\<rparr> = (Inr LT, wT) \<and>
        g_unet_locals True 3 1 64 1 False 0 ''unet''
          \<lparr>image_dim_ordering = ''th'', stdout = [], built = []\<rparr> = (Inr LF, wF) \<and>
        g_unet True 3 1 64 1 True 0 ''unet''
          \<lparr>image_dim_ordering = ''th'', stdout = [], built = []\<rparr> =
          (Inr \<lparr>inputs = v_i LT, outputs = v_out LT, name = ''unet''\<rparr>, wT) \<and>
        g_unet True 3 1 64 1 False 0 ''unet''
          \<lparr>image_dim_ordering = ''th'', stdout = [], built = []\<rparr> =
          (Inr \<lparr>inputs = v_i LF, outputs = v_out LF, name = ''unet''\<rparr>, wF) \<and>
        v_out LT = Tensor (Activation ''sigmoid'') [v_dconv9 LT] \<and>
        v_out LF = Tensor (Activation ''tanh'') [v_dconv9 LT] \<and>
        LF = LT\<lparr>v_act := ''tanh'', v_out := Tensor (Activation ''tanh'') [v_dconv9 LT]\<rparr> \<and>
        last (built wT) = Activation ''sigmoid'' \<and>
        last (built wF) = Activation ''tanh'' \<and>
        butlast (built wT) = butlast (built wF) \<and>
        stdout wT = stdout wF \<and>
        image_dim_ordering wT = image_dim_ordering wF) \<and>
     (\<exists>s t. activation ''sigmoid'' = Some s \<and> activation ''tanh'' = Some t \<and>
        (\<forall>x. 0 \<le> s x \<and> s x \<le> 1) \<and> (\<forall>x. - 1 \<le> t x \<and> t x \<le> 1))"
  using g_unet_final_activation
    [of "\<lparr>image_dim_ordering = ''th'', stdout = [], built = []\<rparr>" True 3 1 64 1 0 "''unet''"]
  by simp

subsection \<open>The ordering after import, and the batch size under Keras 2\<close>



text \<open>
  C10. Under Keras 2 the wrapper \<open>Deconvolution\<close> constructs the same layer whatever its
  \<open>output_shape\<close> argument, and two calls of \<open>g_unet\<close> that differ in \<open>batch_size\<close> only return
  the same model and leave the same world.
\<close>

theorem keras2_ignores_batch_size:
  "Deconvolution True w f output_shape1 k s = Deconvolution True w f output_shape2 k s \<and>
   g_unet True in_ch out_ch nf batch_size1 is_binary num_padded_conv nm w =
   g_unet True in_ch out_ch nf batch_size2 is_binary num_padded_conv nm w"
  unfolding g_unet_def g_unet_locals_def g_unet_body_def Deconvolution_def if_True
  by (rule conjI) (rule refl)+

subsection \<open>The unsupported ordering\<close>

text \<open>
  C7. When the backend's image dimension ordering is neither \<^verbatim>\<open>'th'\<close> nor \<^verbatim>\<open>'tf'\<close>, \<open>g_unet\<close>
  raises the \<^verbatim>\<open>ValueError\<close> that names the ordering, and the world it leaves is the world
  it was called in: no input, no layer was constructed and nothing was printed.
\<close>

theorem g_unet_unsupported_ordering:
  assumes "image_dim_ordering w \<noteq> ''th''" and "image_dim_ordering w \<noteq> ''tf''"
  shows "g_unet KERAS_2 in_ch out_ch nf batch_size is_binary num_padded_conv nm w =
           (Inl (ValueError (''Keras dimension ordering not supported: '' @ image_dim_ordering w)),
            w)"
  using assms by (simp add: g_unet_def g_unet_locals_def)

theorem g_unet_unsupported_ordering_witness:
  "g_unet True 3 1 64 1 False 0 ''unet''
     \<lparr>image_dim_ordering = ''nhwc'', stdout = [], built = []\<rparr> =
   (Inl (ValueError ''Keras dimension ordering not supported: nhwc''),
    \<lparr>image_dim_ordering = ''nhwc'', stdout = [], built = []\<rparr>)"
  using g_unet_unsupported_ordering
    [of "\<lparr>image_dim_ordering = ''nhwc'', stdout = [], built = []\<rparr>" True 3 1 64 1 False 0 "''unet''"]
  by simp


end
